theory Spec2Isabelle
  imports Main "HOL-Library.Sublist"
begin

section \<open>Python values and exceptions\<close>

text \<open>
  Text is modelled as \<^typ>\<open>string\<close>: a list of characters with codes below 256. The
  substring test of Python (\<^verbatim>\<open>a in b\<close>) is \<^const>\<open>sublist\<close>.

  Every exception the program can meet is a value of \<open>error\<close>; a computation that may
  raise returns \<open>error + 'a\<close>, with \<open>Inl\<close> for the exception.
\<close>

datatype error =
    ValueError string
  | KeyError string
  | IndexError
  | TypeError
  | AttributeError
  | OverflowError
  | OSError
  | JSONDecodeError
  | HTTPError nat
  | RequestException
  | ZoneInfoNotFoundError string

text \<open>
  The values that \<^verbatim>\<open>json\<close> decoding produces: \<^verbatim>\<open>None\<close>, booleans, integers, numbers
  with a fraction (\<open>JFloat m e\<close> stands for \<open>m * 10^e\<close>), strings, lists and dictionaries.
  A dictionary is the list of its items in insertion order; its keys are distinct.
\<close>

datatype json =
    JNull
  | JBool bool
  | JInt int
  | JFloat int int
  | JStr string
  | JArr "json list"
  | JObj "(string \<times> json) list"

text \<open>Truth value of a Python object, as \<^verbatim>\<open>if not x\<close> tests it.\<close>

fun py_truthy :: "json \<Rightarrow> bool" where
  "py_truthy JNull = False"
| "py_truthy (JBool b) = b"
| "py_truthy (JInt i) = (i \<noteq> 0)"
| "py_truthy (JFloat m e) = (m \<noteq> 0)"
| "py_truthy (JStr s) = (s \<noteq> [])"
| "py_truthy (JArr xs) = (xs \<noteq> [])"
| "py_truthy (JObj kvs) = (kvs \<noteq> [])"

text \<open>\<^verbatim>\<open>d.get(k, default)\<close>: only a dictionary has the method.\<close>

fun dict_get :: "json \<Rightarrow> string \<Rightarrow> json \<Rightarrow> error + json" where
  "dict_get (JObj kvs) k d = Inr (case map_of kvs k of None \<Rightarrow> d | Some v \<Rightarrow> v)"
| "dict_get _ k d = Inl AttributeError"

text \<open>\<^verbatim>\<open>d[k]\<close> with a string key.\<close>

fun getitem_str :: "json \<Rightarrow> string \<Rightarrow> error + json" where
  "getitem_str (JObj kvs) k = (case map_of kvs k of None \<Rightarrow> Inl (KeyError k) | Some v \<Rightarrow> Inr v)"
| "getitem_str _ k = Inl TypeError"

text \<open>\<^verbatim>\<open>x[0]\<close>: the first element of a list, the first character of a string; a
  dictionary of string keys has no key \<^verbatim>\<open>0\<close>.\<close>

fun getitem_zero :: "json \<Rightarrow> error + json" where
  "getitem_zero (JArr []) = Inl IndexError"
| "getitem_zero (JArr (x # xs)) = Inr x"
| "getitem_zero (JStr []) = Inl IndexError"
| "getitem_zero (JStr (c # cs)) = Inr (JStr [c])"
| "getitem_zero (JObj kvs) = Inl (KeyError ''0'')"
| "getitem_zero _ = Inl TypeError"

text \<open>Iteration (\<^verbatim>\<open>for x in v\<close>): the elements of a list, the keys of a dictionary,
  the characters of a string; nothing else is iterable.\<close>

fun py_iter :: "json \<Rightarrow> error + json list" where
  "py_iter (JArr xs) = Inr xs"
| "py_iter (JObj kvs) = Inr (map (\<lambda>kv. JStr (fst kv)) kvs)"
| "py_iter (JStr s) = Inr (map (\<lambda>c. JStr [c]) s)"
| "py_iter _ = Inl TypeError"

subsection \<open>Whitespace, case and integer literals\<close>

definition is_space :: "char \<Rightarrow> bool" where
  "is_space c = (let n = (of_char c :: nat) in
     (9 \<le> n \<and> n \<le> 13) \<or> (28 \<le> n \<and> n \<le> 32) \<or> n = 133 \<or> n = 160)"

definition py_strip :: "string \<Rightarrow> string" where
  "py_strip s = rev (dropWhile is_space (rev (dropWhile is_space s)))"

text \<open>
  The whitespace that \<^verbatim>\<open>int()\<close> skips around a literal: tab, line feed, vertical tab,
  form feed, carriage return, space, and the whitespace beyond ASCII (next line, code 133,
  and no-break space, code 160). The separators with codes 28 to 31, which
  \<^verbatim>\<open>str.strip()\<close> removes, are not skipped: \<^verbatim>\<open>int()\<close> rejects them.
\<close>

definition is_int_space :: "char \<Rightarrow> bool" where
  "is_int_space c = (let n = (of_char c :: nat) in
     (9 \<le> n \<and> n \<le> 13) \<or> n = 32 \<or> n = 133 \<or> n = 160)"

definition int_strip :: "string \<Rightarrow> string" where
  "int_strip s = rev (dropWhile is_int_space (rev (dropWhile is_int_space s)))"

definition lower_char :: "char \<Rightarrow> char" where
  "lower_char c = (let n = (of_char c :: nat) in
     if (65 \<le> n \<and> n \<le> 90) \<or> (192 \<le> n \<and> n \<le> 222 \<and> n \<noteq> 215)
     then char_of (n + 32) else c)"

definition py_lower :: "string \<Rightarrow> string" where
  "py_lower s = map lower_char s"

definition is_digit :: "char \<Rightarrow> bool" where
  "is_digit c = (let n = (of_char c :: nat) in 48 \<le> n \<and> n \<le> 57)"

definition digit_val :: "char \<Rightarrow> nat" where
  "digit_val c = of_char c - 48"

text \<open>No two underscores in a row.\<close>

fun no_double_underscore :: "string \<Rightarrow> bool" where
  "no_double_underscore (a # b # cs) =
     (\<not> (a = CHR ''_'' \<and> b = CHR ''_'') \<and> no_double_underscore (b # cs))"
| "no_double_underscore _ = True"

text \<open>
  The digits of a decimal literal as \<^verbatim>\<open>int()\<close> accepts them: at least one digit, single
  underscores between digits only.
\<close>

definition digits_ok :: "string \<Rightarrow> bool" where
  "digits_ok s = (s \<noteq> [] \<and> is_digit (hd s) \<and> is_digit (last s) \<and>
     (\<forall>c \<in> set s. is_digit c \<or> c = CHR ''_'') \<and> no_double_underscore s)"

definition digits_value :: "string \<Rightarrow> nat" where
  "digits_value s = foldl (\<lambda>acc c. acc * 10 + digit_val c) 0 (filter is_digit s)"

text \<open>
  The limit on the length of a literal: with \<open>max_digits\<close> the interpreter's
  \<^verbatim>\<open>sys.get_int_max_str_digits()\<close> (4300 unless configured, 0 for no limit), a literal
  of more than 640 digits is refused when the limit is set and it has more digits than
  the limit. Leading zeros count, underscores do not.
\<close>

definition too_many_digits :: "nat \<Rightarrow> string \<Rightarrow> bool" where
  "too_many_digits max_digits s = (let n = length (filter is_digit s) in
     640 < n \<and> 0 < max_digits \<and> max_digits < n)"

definition nat_literal :: "nat \<Rightarrow> string \<Rightarrow> int option" where
  "nat_literal max_digits s =
     (if digits_ok s \<and> \<not> too_many_digits max_digits s
      then Some (int (digits_value s)) else None)"

text \<open>\<^verbatim>\<open>int(s)\<close> of a string; \<open>None\<close> stands for the \<^verbatim>\<open>ValueError\<close> it raises.\<close>

definition py_int :: "nat \<Rightarrow> string \<Rightarrow> int option" where
  "py_int max_digits s = (case int_strip s of
       [] \<Rightarrow> None
     | c # r \<Rightarrow>
         if c = CHR ''-'' then map_option uminus (nat_literal max_digits r)
         else if c = CHR ''+'' then nat_literal max_digits r
         else nat_literal max_digits (c # r))"

text \<open>\<^verbatim>\<open>s.split(sep)\<close> with a one-character separator.\<close>

fun split_on :: "char \<Rightarrow> string \<Rightarrow> string list" where
  "split_on sep [] = [[]]"
| "split_on sep (c # cs) =
     (if c = sep then [] # split_on sep cs
      else (case split_on sep cs of
              [] \<Rightarrow> [[c]]
            | w # ws \<Rightarrow> (c # w) # ws))"

text \<open>Zero-padded decimal rendering of a fixed width, \<^verbatim>\<open>"%0nd"\<close>.\<close>

definition digit_char :: "nat \<Rightarrow> char" where
  "digit_char d = char_of (48 + d mod 10)"

fun nat_digits :: "nat \<Rightarrow> string" where
  "nat_digits n = (if n < 10 then [digit_char n] else nat_digits (n div 10) @ [digit_char n])"

declare nat_digits.simps [simp del]

definition pad_digits :: "nat \<Rightarrow> nat \<Rightarrow> string" where
  "pad_digits k n = replicate (k - length (nat_digits n)) CHR ''0'' @ nat_digits n"

section \<open>Times of day and timestamps\<close>

text \<open>
  \<^verbatim>\<open>datetime.time\<close>: the constructor checks the ranges, so every value of the program
  satisfies \<open>valid_time\<close>. Two naive times compare as the tuples of their fields.
\<close>

record time =
  hour :: nat
  minute :: nat
  second :: nat
  microsecond :: nat

definition valid_time :: "time \<Rightarrow> bool" where
  "valid_time t = (hour t < 24 \<and> minute t < 60 \<and> second t < 60 \<and> microsecond t < 1000000)"

definition time_le :: "time \<Rightarrow> time \<Rightarrow> bool" where
  "time_le a b =
     (hour a < hour b \<or> (hour a = hour b \<and>
       (minute a < minute b \<or> (minute a = minute b \<and>
         (second a < second b \<or> (second a = second b \<and>
           microsecond a \<le> microsecond b))))))"

text \<open>\<^verbatim>\<open>time(h, m)\<close>: raises \<^verbatim>\<open>ValueError\<close> outside \<open>0..23\<close> and \<open>0..59\<close>.\<close>

definition make_time :: "int \<Rightarrow> int \<Rightarrow> time option" where
  "make_time h m =
     (if 0 \<le> h \<and> h \<le> 23 \<and> 0 \<le> m \<and> m \<le> 59
      then Some \<lparr>hour = nat h, minute = nat m, second = 0, microsecond = 0\<rparr>
      else None)"

text \<open>Microseconds since midnight: the position of a time of day on the clock.\<close>

definition time_micros :: "time \<Rightarrow> nat" where
  "time_micros t = ((hour t * 60 + minute t) * 60 + second t) * 1000000 + microsecond t"

text \<open>
  \<^verbatim>\<open>datetime.datetime\<close>; \<open>dt_utcoffset\<close> is \<open>None\<close> for a naive timestamp and the offset
  from UTC in microseconds for an aware one.
\<close>

record datetime =
  dt_year :: nat
  dt_month :: nat
  dt_day :: nat
  dt_hour :: nat
  dt_minute :: nat
  dt_second :: nat
  dt_microsecond :: nat
  dt_utcoffset :: "int option"

text \<open>\<^verbatim>\<open>now.time()\<close>: the time of day, without the zone.\<close>

definition time_of :: "datetime \<Rightarrow> time" where
  "time_of d = \<lparr>hour = dt_hour d, minute = dt_minute d, second = dt_second d,
                microsecond = dt_microsecond d\<rparr>"

text \<open>\<^verbatim>\<open>d.isoformat()\<close>:
  \<^verbatim>\<open>YYYY-MM-DDTHH:MM:SS\<close>, then \<^verbatim>\<open>.ffffff\<close> when the microseconds are not zero, then
  the offset \<^verbatim>\<open>+HH:MM[:SS[.ffffff]]\<close> of an aware timestamp.\<close>

definition offset_text :: "int \<Rightarrow> string" where
  "offset_text off =
     (let a = nat \<bar>off\<bar>;
          us = a mod 1000000;
          secs = a div 1000000;
          ss = secs mod 60;
          mm = (secs div 60) mod 60;
          hh = secs div 3600
      in (if off < 0 then ''-'' else ''+'') @ pad_digits 2 hh @ '':'' @ pad_digits 2 mm
         @ (if ss \<noteq> 0 \<or> us \<noteq> 0 then '':'' @ pad_digits 2 ss else [])
         @ (if us \<noteq> 0 then ''.'' @ pad_digits 6 us else []))"

definition isoformat :: "datetime \<Rightarrow> string" where
  "isoformat d =
     pad_digits 4 (dt_year d) @ ''-'' @ pad_digits 2 (dt_month d) @ ''-'' @ pad_digits 2 (dt_day d)
     @ ''T'' @ pad_digits 2 (dt_hour d) @ '':'' @ pad_digits 2 (dt_minute d)
     @ '':'' @ pad_digits 2 (dt_second d)
     @ (if dt_microsecond d \<noteq> 0 then ''.'' @ pad_digits 6 (dt_microsecond d) else [])
     @ (case dt_utcoffset d of None \<Rightarrow> [] | Some off \<Rightarrow> offset_text off)"

text \<open>\<^verbatim>\<open>d - timedelta(days=1)\<close>: the same wall-clock time on the previous day of the
  proleptic Gregorian calendar; before 0001-01-01 there is no date and Python raises
  \<^verbatim>\<open>OverflowError\<close>.\<close>

definition is_leap :: "nat \<Rightarrow> bool" where
  "is_leap y = (y mod 4 = 0 \<and> (y mod 100 \<noteq> 0 \<or> y mod 400 = 0))"

definition days_in_month :: "nat \<Rightarrow> nat \<Rightarrow> nat" where
  "days_in_month y m =
     (if m = 2 then (if is_leap y then 29 else 28)
      else if m = 4 \<or> m = 6 \<or> m = 9 \<or> m = 11 then 30 else 31)"

definition minus_one_day :: "datetime \<Rightarrow> error + datetime" where
  "minus_one_day d =
     (if 1 < dt_day d then Inr (d\<lparr>dt_day := dt_day d - 1\<rparr>)
      else if 1 < dt_month d
        then Inr (d\<lparr>dt_month := dt_month d - 1,
                    dt_day := days_in_month (dt_year d) (dt_month d - 1)\<rparr>)
      else if 1 < dt_year d
        then Inr (d\<lparr>dt_year := dt_year d - 1, dt_month := 12, dt_day := 31\<rparr>)
      else Inl OverflowError)"

text \<open>The number of a day counted from 0001-01-01 as day 1, \<^verbatim>\<open>date.toordinal()\<close>, by
  which Python defines the subtraction of days.\<close>

definition days_before_year :: "nat \<Rightarrow> nat" where
  "days_before_year y = (let p = y - 1 in p * 365 + p div 4 - p div 100 + p div 400)"

fun days_before_month :: "nat \<Rightarrow> nat \<Rightarrow> nat" where
  "days_before_month y 0 = 0"
| "days_before_month y (Suc m) =
     (if m = 0 then 0 else days_before_month y m + days_in_month y m)"

definition valid_date :: "datetime \<Rightarrow> bool" where
  "valid_date d = (1 \<le> dt_year d \<and> 1 \<le> dt_month d \<and> dt_month d \<le> 12
     \<and> 1 \<le> dt_day d \<and> dt_day d \<le> days_in_month (dt_year d) (dt_month d))"

definition toordinal :: "datetime \<Rightarrow> nat" where
  "toordinal d = days_before_year (dt_year d) + days_before_month (dt_year d) (dt_month d)
     + dt_day d"

section \<open>Configuration\<close>

record config =
  jira_base_url :: string
  jira_email :: string
  jira_api_token :: string
  jira_assignee_account_id :: string
  project_key :: string
  assignee_fallback :: string
  status_field_id :: string
  todo_transition :: string
  in_progress_transition :: string
  waiting_transition :: string
  use_confluence_kb :: bool
  confluence_base_url :: string
  confluence_space_key :: string
  openai_api_key :: "string option"
  openai_model :: string
  timezone :: "string option"
  window_start :: time
  window_end :: time
  last_run_path :: string

section \<open>The world outside the program\<close>

text \<open>
  An HTTP request as the \<^verbatim>\<open>requests\<close> calls of the program build it, and what comes
  back: no response at all (the call raises), or a status code with a body that decodes
  to JSON or does not.
\<close>

datatype http_method = GET | POST | PUT

record request =
  req_method :: http_method
  req_url :: string
  req_headers :: "(string \<times> string) list"
  req_auth :: "(string \<times> string) option"
  req_params :: "(string \<times> string) list"
  req_json :: "json option"
  req_timeout :: nat

datatype outcome = NoResponse | Response nat "json option"

text \<open>
  A path of the file system: nothing there, something that cannot be opened (a directory,
  a file without permission), or a file. The content of a file is kept as the JSON value
  it decodes to, \<open>None\<close> when it is not JSON; the encoder and decoder themselves are not
  modelled.
\<close>

datatype fsnode = NoFile | NoAccess | File "json option"

text \<open>
  What the program reads and cannot change: the environment variables, whether the
  \<^verbatim>\<open>zoneinfo\<close> module was importable, the clock (the local time at the n-th reading, and
  the time in a named zone or the exception that looking the zone up raises), the servers
  (the answer to a request, given the requests sent before it), the text that \<^verbatim>\<open>str()\<close>
  gives for a value that is not a string, \<^verbatim>\<open>datetime.fromisoformat\<close> (\<open>None\<close> when it
  raises), and the interpreter's limit on the digits of an integer literal.
\<close>

record world =
  environ :: "string \<Rightarrow> string option"
  has_zoneinfo :: bool
  clock :: "nat \<Rightarrow> datetime"
  zone_clock :: "string \<Rightarrow> nat \<Rightarrow> error + datetime"
  server :: "request list \<Rightarrow> request \<Rightarrow> outcome"
  py_format :: "json \<Rightarrow> string"
  fromisoformat :: "string \<Rightarrow> datetime option"
  int_max_str_digits :: nat

text \<open>What the program changes: files, the requests sent so far, the number of clock
  readings taken, and the lines printed.\<close>

record state =
  files :: "string \<Rightarrow> fsnode"
  trace :: "request list"
  ticks :: nat
  stdout :: "string list"

type_synonym 'a action = "state \<Rightarrow> (error + 'a) \<times> state"

definition returnE :: "'a \<Rightarrow> 'a action" where
  "returnE x = (\<lambda>s. (Inr x, s))"

definition raiseE :: "error \<Rightarrow> 'a action" where
  "raiseE e = (\<lambda>s. (Inl e, s))"

definition liftE :: "error + 'a \<Rightarrow> 'a action" where
  "liftE r = (\<lambda>s. (r, s))"

definition bindE :: "'a action \<Rightarrow> ('a \<Rightarrow> 'b action) \<Rightarrow> 'b action" where
  "bindE m f = (\<lambda>s. case m s of (Inl e, s') \<Rightarrow> (Inl e, s') | (Inr x, s') \<Rightarrow> f x s')"

definition thenE :: "unit action \<Rightarrow> 'b action \<Rightarrow> 'b action" where
  "thenE m n = bindE m (\<lambda>_. n)"

text \<open>Sequencing of computations that may raise but touch no state.\<close>

definition bindR :: "error + 'a \<Rightarrow> ('a \<Rightarrow> error + 'b) \<Rightarrow> error + 'b" where
  "bindR r f = (case r of Inl e \<Rightarrow> Inl e | Inr x \<Rightarrow> f x)"

text \<open>\<^verbatim>\<open>str(v)\<close>, as an f-string applies it.\<close>

definition py_str :: "world \<Rightarrow> json \<Rightarrow> string" where
  "py_str w v = (case v of JStr s \<Rightarrow> s | _ \<Rightarrow> py_format w v)"

definition print :: "string \<Rightarrow> unit action" where
  "print line = (\<lambda>s. (Inr (), s\<lparr>stdout := stdout s @ [line]\<rparr>))"

text \<open>Sending a request: the server answers from the requests it has seen, and the
  request is recorded.\<close>

definition send :: "world \<Rightarrow> request \<Rightarrow> outcome action" where
  "send w req = (\<lambda>s. (Inr (server w (trace s) req), s\<lparr>trace := trace s @ [req]\<rparr>))"

text \<open>\<^verbatim>\<open>requests.get/post/put\<close> followed by \<^verbatim>\<open>response.raise_for_status()\<close>: the body
  of a response that is not a 4xx or 5xx.\<close>

definition checked :: "outcome \<Rightarrow> error + json option" where
  "checked out = (case out of
       NoResponse \<Rightarrow> Inl RequestException
     | Response status body \<Rightarrow>
         if 400 \<le> status \<and> status < 600 then Inl (HTTPError status) else Inr body)"

text \<open>\<^verbatim>\<open>response.json()\<close>.\<close>

definition response_json :: "json option \<Rightarrow> error + json" where
  "response_json body = (case body of None \<Rightarrow> Inl JSONDecodeError | Some j \<Rightarrow> Inr j)"

section \<open>Configuration loader\<close>

definition getenv :: "world \<Rightarrow> string \<Rightarrow> string option \<Rightarrow> string option" where
  "getenv w name dflt = (case environ w name of None \<Rightarrow> dflt | Some v \<Rightarrow> Some v)"

text \<open>\<^verbatim>\<open>os.getenv(name, default)\<close> with a string default.\<close>

definition env_or :: "world \<Rightarrow> string \<Rightarrow> string \<Rightarrow> string" where
  "env_or w name dflt = (case environ w name of None \<Rightarrow> dflt | Some v \<Rightarrow> v)"

definition invalid_time_message :: "string \<Rightarrow> string \<Rightarrow> string" where
  "invalid_time_message env_name raw_value =
     ''Invalid time value for '' @ env_name @ '': '' @ raw_value"

definition parse_time_env :: "world \<Rightarrow> string \<Rightarrow> string \<Rightarrow> error + time" where
  "parse_time_env w env_name default_value =
     (let raw_value = env_or w env_name default_value;
          failed = Inl (ValueError (invalid_time_message env_name raw_value))
      in case split_on CHR '':'' raw_value of
           [hours, minutes] \<Rightarrow>
             (case py_int (int_max_str_digits w) hours of
                None \<Rightarrow> failed
              | Some h \<Rightarrow>
                  (case py_int (int_max_str_digits w) minutes of
                     None \<Rightarrow> failed
                   | Some m \<Rightarrow>
                       (case make_time h m of None \<Rightarrow> failed | Some t \<Rightarrow> Inr t)))
         | _ \<Rightarrow> failed)"

definition get_env :: "world \<Rightarrow> string \<Rightarrow> string option \<Rightarrow> error + string" where
  "get_env w name dflt =
     (case getenv w name dflt of
        None \<Rightarrow> Inl (ValueError (''Missing required environment variable: '' @ name))
      | Some value \<Rightarrow> Inr value)"

definition load_config :: "world \<Rightarrow> error + config" where
  "load_config w =
     bindR (parse_time_env w ''WINDOW_START'' ''05:30'') (\<lambda>ws.
     bindR (parse_time_env w ''WINDOW_END'' ''17:30'') (\<lambda>we.
     bindR (get_env w ''JIRA_BASE_URL'' None) (\<lambda>base_url.
     bindR (get_env w ''JIRA_EMAIL'' None) (\<lambda>email.
     bindR (get_env w ''JIRA_API_TOKEN'' None) (\<lambda>api_token.
     bindR (get_env w ''JIRA_ASSIGNEE_ACCOUNT_ID'' None) (\<lambda>account_id.
     bindR (get_env w ''PROJECT_KEY'' (Some ''TS'')) (\<lambda>pkey.
     bindR (get_env w ''ASSIGNEE_FALLBACK'' (Some ''currentUser()'')) (\<lambda>fallback.
     bindR (get_env w ''STATUS_FIELD_ID'' (Some ''customfield_10353'')) (\<lambda>field_id.
     bindR (get_env w ''STATUS_TRANSITION_TODO_TO_IN_PROGRESS'' (Some ''To-Do'')) (\<lambda>todo.
     bindR (get_env w ''STATUS_TRANSITION_IN_PROGRESS_TO_WAITING'' (Some ''Iprogress'')) (\<lambda>inprog.
     bindR (get_env w ''STATUS_TRANSITION_WAITING_TO_IN_PROGRESS'' (Some ''Wating for clinet''))
       (\<lambda>waiting.
     bindR (get_env w ''USE_CONFLUENCE_KB'' (Some ''false'')) (\<lambda>use_kb.
     bindR (get_env w ''CONFLUENCE_BASE_URL'' (Some ''https://certifyos.atlassian.net/wiki''))
       (\<lambda>kb_url.
     bindR (get_env w ''CONFLUENCE_SPACE_KEY'' (Some ''TS'')) (\<lambda>space_key.
     bindR (get_env w ''OPENAI_MODEL'' (Some ''gpt-4o-mini'')) (\<lambda>model.
     bindR (get_env w ''LAST_RUN_PATH'' (Some ''last_run.json'')) (\<lambda>path.
     Inr \<lparr>jira_base_url = base_url,
          jira_email = email,
          jira_api_token = api_token,
          jira_assignee_account_id = account_id,
          project_key = pkey,
          assignee_fallback = fallback,
          status_field_id = field_id,
          todo_transition = todo,
          in_progress_transition = inprog,
          waiting_transition = waiting,
          use_confluence_kb = (py_lower use_kb = ''true''),
          confluence_base_url = kb_url,
          confluence_space_key = space_key,
          openai_api_key = environ w ''OPENAI_API_KEY'',
          openai_model = model,
          timezone = environ w ''TIMEZONE'',
          window_start = ws,
          window_end = we,
          last_run_path = path\<rparr>)))))))))))))))))"

section \<open>Run window and watermark\<close>

definition now_local :: "world \<Rightarrow> config \<Rightarrow> datetime action" where
  "now_local w cfg = (\<lambda>s.
     case timezone cfg of
       Some tz \<Rightarrow>
         if tz \<noteq> [] \<and> has_zoneinfo w
         then (case zone_clock w tz (ticks s) of
                 Inl e \<Rightarrow> (Inl e, s)
               | Inr d \<Rightarrow> (Inr d, s\<lparr>ticks := ticks s + 1\<rparr>))
         else (Inr (clock w (ticks s)), s\<lparr>ticks := ticks s + 1\<rparr>)
     | None \<Rightarrow> (Inr (clock w (ticks s)), s\<lparr>ticks := ticks s + 1\<rparr>))"

definition within_reply_window :: "config \<Rightarrow> datetime \<Rightarrow> bool" where
  "within_reply_window cfg now =
     (let start = window_start cfg;
          end = window_end cfg;
          current = time_of now
      in if time_le start end then time_le start current \<and> time_le current end
         else time_le start current \<or> time_le current end)"

text \<open>\<^verbatim>\<open>datetime.now() - timedelta(days=1)\<close>.\<close>

definition day_before_now :: "world \<Rightarrow> datetime action" where
  "day_before_now w = (\<lambda>s. (minus_one_day (clock w (ticks s)), s\<lparr>ticks := ticks s + 1\<rparr>))"

text \<open>The body of the \<^verbatim>\<open>try\<close> block of \<^verbatim>\<open>load_last_run\<close>: open, decode,
  \<^verbatim>\<open>payload["last_run"]\<close>, \<^verbatim>\<open>datetime.fromisoformat\<close>.\<close>

definition read_last_run :: "world \<Rightarrow> fsnode \<Rightarrow> error + datetime" where
  "read_last_run w node = (case node of
       NoFile \<Rightarrow> Inl OSError
     | NoAccess \<Rightarrow> Inl OSError
     | File None \<Rightarrow> Inl JSONDecodeError
     | File (Some payload) \<Rightarrow>
         bindR (getitem_str payload ''last_run'') (\<lambda>v.
           case v of
             JStr text \<Rightarrow>
               (case fromisoformat w text of
                  None \<Rightarrow> Inl (ValueError (''Invalid isoformat string: '' @ text))
                | Some d \<Rightarrow> Inr d)
           | _ \<Rightarrow> Inl TypeError))"

definition load_last_run :: "world \<Rightarrow> string \<Rightarrow> datetime action" where
  "load_last_run w path = (\<lambda>s.
     if files s path = NoFile then day_before_now w s
     else (case read_last_run w (files s path) of
             Inr d \<Rightarrow> (Inr d, s)
           | Inl e \<Rightarrow> day_before_now w s))"

definition save_last_run :: "string \<Rightarrow> datetime \<Rightarrow> unit action" where
  "save_last_run path timestamp = (\<lambda>s.
     if files s path = NoAccess then (Inl OSError, s)
     else (Inr (), s\<lparr>files := (files s)(path :=
             File (Some (JObj [(''last_run'', JStr (isoformat timestamp))])))\<rparr>))"

section \<open>Ticketing client\<close>

definition jira_headers :: "(string \<times> string) list" where
  "jira_headers = [(''Accept'', ''application/json''), (''Content-Type'', ''application/json'')]"

definition jira_auth :: "config \<Rightarrow> string \<times> string" where
  "jira_auth cfg = (jira_email cfg, jira_api_token cfg)"

text \<open>The query of \<^verbatim>\<open>jira_search_issues\<close>.\<close>

definition search_jql :: "config \<Rightarrow> datetime \<Rightarrow> string" where
  \<open>search_jql cfg last_run =
     ''project = "'' @ project_key cfg @ ''" ''
     @ ''AND assignee is EMPTY ''
     @ ''AND status = "To-Do" ''
     @ ''AND statusCategory != Done ''
     @ ''AND updated >= "'' @ isoformat last_run @ ''" ''
     @ ''ORDER BY created ASC''\<close>

definition search_request :: "config \<Rightarrow> datetime \<Rightarrow> request" where
  "search_request cfg last_run =
     \<lparr>req_method = GET,
      req_url = jira_base_url cfg @ ''/rest/api/3/search/jql'',
      req_headers = jira_headers,
      req_auth = Some (jira_auth cfg),
      req_params = [(''jql'', search_jql cfg last_run)],
      req_json = None,
      req_timeout = 30\<rparr>"

definition jira_search_issues :: "world \<Rightarrow> config \<Rightarrow> datetime \<Rightarrow> json action" where
  "jira_search_issues w cfg last_run =
     bindE (send w (search_request cfg last_run)) (\<lambda>response.
       liftE (bindR (checked response) (\<lambda>body.
              bindR (response_json body) (\<lambda>data.
              dict_get data ''issues'' (JArr [])))))"

definition comment_request :: "world \<Rightarrow> config \<Rightarrow> json \<Rightarrow> string \<Rightarrow> request" where
  "comment_request w cfg issue_key body =
     \<lparr>req_method = POST,
      req_url = jira_base_url cfg @ ''/rest/api/3/issue/'' @ py_str w issue_key @ ''/comment'',
      req_headers = jira_headers,
      req_auth = Some (jira_auth cfg),
      req_params = [],
      req_json = Some (JObj [(''body'', JStr body)]),
      req_timeout = 30\<rparr>"

definition jira_add_comment :: "world \<Rightarrow> config \<Rightarrow> json \<Rightarrow> string \<Rightarrow> unit action" where
  "jira_add_comment w cfg issue_key body =
     bindE (send w (comment_request w cfg issue_key body)) (\<lambda>response.
       liftE (bindR (checked response) (\<lambda>_. Inr ())))"

definition assign_request :: "world \<Rightarrow> config \<Rightarrow> json \<Rightarrow> string \<Rightarrow> request" where
  "assign_request w cfg issue_key assignee_account_id =
     \<lparr>req_method = PUT,
      req_url = jira_base_url cfg @ ''/rest/api/3/issue/'' @ py_str w issue_key @ ''/assignee'',
      req_headers = jira_headers,
      req_auth = Some (jira_auth cfg),
      req_params = [],
      req_json = Some (JObj [(''accountId'', JStr assignee_account_id)]),
      req_timeout = 30\<rparr>"

definition jira_assign_issue :: "world \<Rightarrow> config \<Rightarrow> json \<Rightarrow> string \<Rightarrow> unit action" where
  "jira_assign_issue w cfg issue_key assignee_account_id =
     bindE (send w (assign_request w cfg issue_key assignee_account_id)) (\<lambda>response.
       liftE (bindR (checked response) (\<lambda>_. Inr ())))"

definition list_transitions_request :: "world \<Rightarrow> config \<Rightarrow> json \<Rightarrow> request" where
  "list_transitions_request w cfg issue_key =
     \<lparr>req_method = GET,
      req_url = jira_base_url cfg @ ''/rest/api/3/issue/'' @ py_str w issue_key @ ''/transitions'',
      req_headers = jira_headers,
      req_auth = Some (jira_auth cfg),
      req_params = [],
      req_json = None,
      req_timeout = 30\<rparr>"

definition jira_list_transitions :: "world \<Rightarrow> config \<Rightarrow> json \<Rightarrow> json action" where
  "jira_list_transitions w cfg issue_key =
     bindE (send w (list_transitions_request w cfg issue_key)) (\<lambda>response.
       liftE (bindR (checked response) (\<lambda>body.
              bindR (response_json body) (\<lambda>data.
              dict_get data ''transitions'' (JArr [])))))"

text \<open>
  \<^verbatim>\<open>next((item for item in transitions if item.get("name") == transition_name), None)\<close>:
  the first item whose name is the string looked for; an item before it that is not a
  dictionary raises.
\<close>

fun find_transition :: "json list \<Rightarrow> string \<Rightarrow> error + json option" where
  "find_transition [] transition_name = Inr None"
| "find_transition (item # items) transition_name =
     (case dict_get item ''name'' JNull of
        Inl e \<Rightarrow> Inl e
      | Inr n \<Rightarrow> if n = JStr transition_name then Inr (Some item)
                 else find_transition items transition_name)"

definition transition_not_found :: "world \<Rightarrow> string \<Rightarrow> json \<Rightarrow> error" where
  "transition_not_found w transition_name issue_key =
     ValueError (''Transition '' @ [CHR 0x27] @ transition_name @ [CHR 0x27]
                 @ '' not found for '' @ py_str w issue_key)"

definition transition_request :: "world \<Rightarrow> config \<Rightarrow> json \<Rightarrow> json \<Rightarrow> request" where
  "transition_request w cfg issue_key transition_id =
     \<lparr>req_method = POST,
      req_url = jira_base_url cfg @ ''/rest/api/3/issue/'' @ py_str w issue_key @ ''/transitions'',
      req_headers = jira_headers,
      req_auth = Some (jira_auth cfg),
      req_params = [],
      req_json = Some (JObj [(''transition'', JObj [(''id'', transition_id)])]),
      req_timeout = 30\<rparr>"

definition jira_transition_issue :: "world \<Rightarrow> config \<Rightarrow> json \<Rightarrow> string \<Rightarrow> unit action" where
  "jira_transition_issue w cfg issue_key transition_name =
     bindE (jira_list_transitions w cfg issue_key) (\<lambda>transitions.
     bindE (liftE (bindR (py_iter transitions) (\<lambda>items. find_transition items transition_name)))
       (\<lambda>found.
     case found of
       None \<Rightarrow> raiseE (transition_not_found w transition_name issue_key)
     | Some transition \<Rightarrow>
         if \<not> py_truthy transition
         then raiseE (transition_not_found w transition_name issue_key)
         else bindE (liftE (getitem_str transition ''id'')) (\<lambda>transition_id.
              bindE (send w (transition_request w cfg issue_key transition_id)) (\<lambda>response.
                liftE (bindR (checked response) (\<lambda>_. Inr ()))))))"

section \<open>Reply generator\<close>

definition build_default_reply :: "world \<Rightarrow> json \<Rightarrow> error + string" where
  "build_default_reply w issue =
     bindR (dict_get issue ''fields'' (JObj [])) (\<lambda>fields.
     bindR (dict_get fields ''summary'' (JStr ''your ticket'')) (\<lambda>summary.
     Inr (''Thanks for reaching out! We received **'' @ py_str w summary @ ''**. ''
          @ ''Our team will review this shortly and respond with next steps.'')))"

definition reply_prompt :: "world \<Rightarrow> json \<Rightarrow> json \<Rightarrow> string" where
  "reply_prompt w summary description =
     ''You are an assistant for support tickets. Draft a concise, friendly ''
     @ ''auto-reply acknowledging the ticket and asking for any missing info. ''
     @ ''Keep it under 80 words.'' @ [CHR 0x0A, CHR 0x0A]
     @ ''Summary: '' @ py_str w summary @ [CHR 0x0A]
     @ ''Description: '' @ py_str w description"

definition generation_request :: "config \<Rightarrow> string \<Rightarrow> string \<Rightarrow> request" where
  "generation_request cfg api_key prompt =
     \<lparr>req_method = POST,
      req_url = ''https://api.openai.com/v1/chat/completions'',
      req_headers = [(''Authorization'', ''Bearer '' @ api_key),
                     (''Content-Type'', ''application/json'')],
      req_auth = None,
      req_params = [],
      req_json = Some (JObj [(''model'', JStr (openai_model cfg)),
                             (''messages'', JArr [JObj [(''role'', JStr ''user''),
                                                       (''content'', JStr prompt)]]),
                             (''temperature'', JFloat 3 (- 1))]),
      req_timeout = 30\<rparr>"

text \<open>\<^verbatim>\<open>data["choices"][0]["message"]["content"].strip()\<close>.\<close>

definition reply_content :: "json \<Rightarrow> error + string" where
  "reply_content data =
     bindR (getitem_str data ''choices'') (\<lambda>choices.
     bindR (getitem_zero choices) (\<lambda>choice.
     bindR (getitem_str choice ''message'') (\<lambda>message.
     bindR (getitem_str message ''content'') (\<lambda>content.
     case content of JStr text \<Rightarrow> Inr (py_strip text) | _ \<Rightarrow> Inl AttributeError))))"

definition generate_ai_reply :: "world \<Rightarrow> config \<Rightarrow> json \<Rightarrow> string action" where
  "generate_ai_reply w cfg issue =
     (case openai_api_key cfg of
        None \<Rightarrow> liftE (build_default_reply w issue)
      | Some api_key \<Rightarrow>
          if api_key = [] then liftE (build_default_reply w issue)
          else
            bindE (liftE (bindR (dict_get issue ''fields'' (JObj [])) (\<lambda>fields.
                          dict_get fields ''summary'' (JStr [])))) (\<lambda>summary.
            bindE (liftE (bindR (dict_get issue ''fields'' (JObj [])) (\<lambda>fields.
                          dict_get fields ''description'' (JStr [])))) (\<lambda>description.
            bindE (send w (generation_request cfg api_key (reply_prompt w summary description)))
              (\<lambda>response.
            liftE (bindR (checked response) (\<lambda>body.
                   bindR (response_json body) reply_content))))))"

section \<open>Orchestrator\<close>

text \<open>The body of the loop of \<^verbatim>\<open>process_issues\<close> for one issue: \<open>False\<close> when the
  issue is skipped by \<^verbatim>\<open>continue\<close>, \<open>True\<close> when all its steps were done.\<close>

definition process_issue :: "world \<Rightarrow> config \<Rightarrow> string \<Rightarrow> json \<Rightarrow> bool action" where
  "process_issue w cfg assignee_account_id issue =
     bindE (liftE (dict_get issue ''key'' JNull)) (\<lambda>issue_key.
     if \<not> py_truthy issue_key then returnE False
     else
       bindE (generate_ai_reply w cfg issue) (\<lambda>reply.
       thenE (jira_add_comment w cfg issue_key reply)
      (thenE (jira_assign_issue w cfg issue_key assignee_account_id)
      (thenE (jira_transition_issue w cfg issue_key (todo_transition cfg))
      (thenE (jira_transition_issue w cfg issue_key (in_progress_transition cfg))
      (thenE (jira_transition_issue w cfg issue_key (waiting_transition cfg))
      (returnE True)))))))"

fun process_from :: "world \<Rightarrow> config \<Rightarrow> string \<Rightarrow> nat \<Rightarrow> json list \<Rightarrow> nat action" where
  "process_from w cfg assignee_account_id count [] s = (Inr count, s)"
| "process_from w cfg assignee_account_id count (issue # issues) s =
     (case process_issue w cfg assignee_account_id issue s of
        (Inl e, s') \<Rightarrow> (Inl e, s')
      | (Inr done, s') \<Rightarrow>
          process_from w cfg assignee_account_id (if done then count + 1 else count) issues s')"

definition process_issues :: "world \<Rightarrow> config \<Rightarrow> json list \<Rightarrow> string \<Rightarrow> nat action" where
  "process_issues w cfg issues assignee_account_id =
     process_from w cfg assignee_account_id 0 issues"

text \<open>What \<^verbatim>\<open>main\<close> does once the configuration is loaded.\<close>

definition run :: "world \<Rightarrow> config \<Rightarrow> int action" where
  "run w cfg =
     bindE (now_local w cfg) (\<lambda>now.
     if \<not> within_reply_window cfg now
     then thenE (print ''Outside reply window. Exiting.'') (returnE 0)
     else
       bindE (load_last_run w (last_run_path cfg)) (\<lambda>last_run.
       bindE (jira_search_issues w cfg last_run) (\<lambda>issues.
       if \<not> py_truthy issues
       then thenE (print ''No matching issues found.'')
           (thenE (save_last_run (last_run_path cfg) now) (returnE 0))
       else
         bindE (liftE (py_iter issues)) (\<lambda>items.
         bindE (process_issues w cfg items (jira_assignee_account_id cfg)) (\<lambda>processed.
         thenE (save_last_run (last_run_path cfg) now)
        (thenE (print (''Processed '' @ pad_digits 1 processed @ '' issues.''))
        (returnE 0)))))))"

text \<open>\<^verbatim>\<open>main\<close>: the value is the exit status it returns; an exception that leaves it is
  \<open>Inl\<close>.\<close>

definition main :: "world \<Rightarrow> int action" where
  "main w = (case load_config w of
       Inl (ValueError msg) \<Rightarrow> thenE (print msg) (returnE 1)
     | Inl e \<Rightarrow> raiseE e
     | Inr cfg \<Rightarrow> run w cfg)"

section \<open>Fixtures of the test suite\<close>

text \<open>The environment that \<^verbatim>\<open>make_env\<close> of the tests sets up, and the configuration
  that \<^verbatim>\<open>load_config\<close> reads from it.\<close>

definition test_environ :: "string \<Rightarrow> string option" where
  "test_environ = map_of
     [(''JIRA_BASE_URL'', ''https://example.atlassian.net''),
      (''JIRA_EMAIL'', ''anurag.rai@certifyos.com''),
      (''JIRA_API_TOKEN'', ''token''),
      (''JIRA_ASSIGNEE_ACCOUNT_ID'', ''712020:abc''),
      (''PROJECT_KEY'', ''TS''),
      (''ASSIGNEE_FALLBACK'', ''currentUser()''),
      (''STATUS_FIELD_ID'', ''customfield_10353''),
      (''STATUS_TRANSITION_TODO_TO_IN_PROGRESS'', ''To-Do''),
      (''STATUS_TRANSITION_IN_PROGRESS_TO_WAITING'', ''Iprogress''),
      (''STATUS_TRANSITION_WAITING_TO_IN_PROGRESS'', ''Wating for clinet''),
      (''USE_CONFLUENCE_KB'', ''false''),
      (''CONFLUENCE_BASE_URL'', ''https://example.atlassian.net/wiki''),
      (''CONFLUENCE_SPACE_KEY'', ''TS''),
      (''OPENAI_MODEL'', ''gpt-4o-mini''),
      (''LAST_RUN_PATH'', ''last_run.json'')]"

definition clock_time :: "nat \<Rightarrow> nat \<Rightarrow> time" where
  "clock_time h m = \<lparr>hour = h, minute = m, second = 0, microsecond = 0\<rparr>"

definition test_config :: config where
  "test_config =
     \<lparr>jira_base_url = ''https://example.atlassian.net'',
      jira_email = ''anurag.rai@certifyos.com'',
      jira_api_token = ''token'',
      jira_assignee_account_id = ''712020:abc'',
      project_key = ''TS'',
      assignee_fallback = ''currentUser()'',
      status_field_id = ''customfield_10353'',
      todo_transition = ''To-Do'',
      in_progress_transition = ''Iprogress'',
      waiting_transition = ''Wating for clinet'',
      use_confluence_kb = False,
      confluence_base_url = ''https://example.atlassian.net/wiki'',
      confluence_space_key = ''TS'',
      openai_api_key = None,
      openai_model = ''gpt-4o-mini'',
      timezone = None,
      window_start = clock_time 5 30,
      window_end = clock_time 17 30,
      last_run_path = ''last_run.json''\<rparr>"

text \<open>A naive timestamp with no microseconds, \<^verbatim>\<open>datetime(y, m, d, H, M, S)\<close>.\<close>

definition naive :: "nat \<Rightarrow> nat \<Rightarrow> nat \<Rightarrow> nat \<Rightarrow> nat \<Rightarrow> nat \<Rightarrow> datetime" where
  "naive y mo d h mi sec =
     \<lparr>dt_year = y, dt_month = mo, dt_day = d, dt_hour = h, dt_minute = mi, dt_second = sec,
      dt_microsecond = 0, dt_utcoffset = None\<rparr>"

text \<open>A world with the given environment in which nothing else is available: no
  \<^verbatim>\<open>zoneinfo\<close>, no server answers, the clock stands at 06:00 on 2024-01-01; the
  interpreter has the default limit on integer literals.\<close>

definition env_world :: "(string \<Rightarrow> string option) \<Rightarrow> world" where
  "env_world env =
     \<lparr>environ = env,
      has_zoneinfo = False,
      clock = (\<lambda>n. naive 2024 1 1 6 0 0),
      zone_clock = (\<lambda>tz n. Inl (ZoneInfoNotFoundError tz)),
      server = (\<lambda>history req. NoResponse),
      py_format = (\<lambda>v. []),
      fromisoformat = (\<lambda>text. None),
      int_max_str_digits = 4300\<rparr>"

text \<open>
  The form \<^verbatim>\<open>HH:MM\<close> in the words of the specification: two digits, a colon, two
  digits, the hour below 24 and the minute below 60.
\<close>

definition hhmm_text :: "string \<Rightarrow> bool" where
  "hhmm_text s = (case s of
       [a, b, c, d, e] \<Rightarrow>
         is_digit a \<and> is_digit b \<and> c = CHR '':'' \<and> is_digit d \<and> is_digit e
         \<and> digit_val a * 10 + digit_val b < 24 \<and> digit_val d * 10 + digit_val e < 60
     | _ \<Rightarrow> False)"

definition idle_state :: state where
  "idle_state = \<lparr>files = (\<lambda>path. NoFile), trace = [], ticks = 0, stdout = []\<rparr>"

text \<open>The test environment with a window bound that is not a time.\<close>

definition bad_window_world :: world where
  "bad_window_world = env_world (test_environ(''WINDOW_START'' \<mapsto> ''not-a-time''))"

text \<open>The test configuration with another name for the first transition.\<close>

definition open_label_config :: config where
  "open_label_config = test_config\<lparr>todo_transition := ''Open''\<rparr>"

text \<open>A ticketing server for the tests: the search finds the one ticket \<^verbatim>\<open>TS-1\<close>, every
  ticket offers the three transitions of the default workflow, a comment is answered with
  the given status, and every other request succeeds with an empty body.\<close>

definition jira_server :: "nat \<Rightarrow> request list \<Rightarrow> request \<Rightarrow> outcome" where
  "jira_server comment_status history req =
     (if req_method req = GET \<and> suffix ''/rest/api/3/search/jql'' (req_url req)
      then Response 200 (Some (JObj [(''issues'', JArr [JObj [(''key'', JStr ''TS-1'')]])]))
      else if req_method req = GET \<and> suffix ''/transitions'' (req_url req)
      then Response 200 (Some (JObj [(''transitions'', JArr
             [JObj [(''id'', JStr ''11''), (''name'', JStr ''To-Do'')],
              JObj [(''id'', JStr ''55''), (''name'', JStr ''Iprogress'')],
              JObj [(''id'', JStr ''77''), (''name'', JStr ''Wating for clinet'')]])]))
      else if req_method req = POST \<and> suffix ''/comment'' (req_url req)
      then Response comment_status None
      else Response 204 None)"

definition test_world :: "nat \<Rightarrow> world" where
  "test_world comment_status =
     (env_world test_environ)
       \<lparr>server := jira_server comment_status,
        fromisoformat := (\<lambda>iso. if iso = ''2024-01-01T00:00:00''
                                 then Some (naive 2024 1 1 0 0 0) else None)\<rparr>"

text \<open>A state in which an earlier run has left its watermark.\<close>

definition watermark_state :: state where
  "watermark_state =
     idle_state\<lparr>files := (\<lambda>path. if path = ''last_run.json''
        then File (Some (JObj [(''last_run'', JStr ''2024-01-01T00:00:00'')])) else NoFile)\<rparr>"

section \<open>The reply window\<close>

lemma lex_radix:
  fixes p q x y B :: nat
  assumes "x < B" "y < B"
  shows "(p * B + x \<le> q * B + y) \<longleftrightarrow> (p < q \<or> (p = q \<and> x \<le> y))"
proof (cases "p < q")
  case True
  then have "Suc p * B \<le> q * B" by (intro mult_le_mono1) simp
  with assms True show ?thesis by simp
next
  case False
  show ?thesis
  proof (cases "p = q")
    case True
    then show ?thesis by simp
  next
    case ne: False
    with False have "q < p" by simp
    then have "Suc q * B \<le> p * B" by (intro mult_le_mono1) simp
    with assms False ne show ?thesis by simp
  qed
qed

lemma lex_radix_less:
  fixes p q x y B :: nat
  assumes "x < B" "y < B"
  shows "(p * B + x < q * B + y) \<longleftrightarrow> (p < q \<or> (p = q \<and> x < y))"
  using lex_radix[OF assms(2) assms(1), of q p] by (auto simp: not_le[symmetric])

lemma lex_radix_eq:
  fixes p q x y B :: nat
  assumes "x < B" "y < B"
  shows "(p * B + x = q * B + y) \<longleftrightarrow> (p = q \<and> x = y)"
  using lex_radix[OF assms(2) assms(1), of q p] lex_radix[OF assms, of p q] by auto

text \<open>Python's comparison of two times of day is their order on the clock.\<close>

lemma time_le_iff_micros:
  assumes "valid_time a" "valid_time b"
  shows "time_le a b \<longleftrightarrow> time_micros a \<le> time_micros b"
proof -
  have m: "minute a < 60" "minute b < 60" and s: "second a < 60" "second b < 60"
    and u: "microsecond a < 1000000" "microsecond b < 1000000"
    using assms by (simp_all add: valid_time_def)
  show ?thesis
    unfolding time_micros_def time_le_def
    by (simp only: lex_radix[OF u] lex_radix_less[OF s] lex_radix_eq[OF s]
        lex_radix_less[OF m] lex_radix_eq[OF m]) blast
qed

text \<open>
  Claim C2. For window bounds \<open>[start, end]\<close> and a time of day \<open>t\<close>, all read as
  positions on the clock: when \<open>start \<le> end\<close> the window check is true exactly when
  \<open>start \<le> t \<le> end\<close>; when \<open>start > end\<close> (the window spans midnight) it is true exactly
  when \<open>t \<ge> start\<close> or \<open>t \<le> end\<close>.
\<close>

theorem within_reply_window_spec:
  assumes "valid_time (window_start cfg)" "valid_time (window_end cfg)"
    and "valid_time (time_of now)"
  shows "(time_micros (window_start cfg) \<le> time_micros (window_end cfg) \<longrightarrow>
            within_reply_window cfg now =
              (time_micros (window_start cfg) \<le> time_micros (time_of now) \<and>
               time_micros (time_of now) \<le> time_micros (window_end cfg)))
       \<and> (time_micros (window_start cfg) > time_micros (window_end cfg) \<longrightarrow>
            within_reply_window cfg now =
              (time_micros (time_of now) \<ge> time_micros (window_start cfg) \<or>
               time_micros (time_of now) \<le> time_micros (window_end cfg)))"
  using assms
  by (simp add: within_reply_window_def Let_def time_le_iff_micros not_le[symmetric])

theorem within_reply_window_spec_witness:
  "valid_time (clock_time 22 0) \<and> valid_time (clock_time 6 0)
   \<and> valid_time (time_of (naive 2024 1 2 5 30 0))
   \<and> time_micros (clock_time 22 0) > time_micros (clock_time 6 0)
   \<and> within_reply_window
        (test_config\<lparr>window_start := clock_time 22 0, window_end := clock_time 6 0\<rparr>)
        (naive 2024 1 2 5 30 0)"
  using within_reply_window_spec
    [of "test_config\<lparr>window_start := clock_time 22 0, window_end := clock_time 6 0\<rparr>"
        "naive 2024 1 2 5 30 0"]
  by (simp add: valid_time_def clock_time_def time_of_def naive_def time_micros_def)

section \<open>Parsing the window bounds\<close>

lemma split_on_nonempty: "split_on c s \<noteq> []"
  by (induction s) (auto split: list.splits)

lemma split_on_single: "split_on c s = [a] \<longleftrightarrow> (s = a \<and> c \<notin> set a)"
proof (induction s arbitrary: a)
  case Nil
  then show ?case by auto
next
  case (Cons x xs)
  show ?case
  proof (cases "x = c")
    case True
    then show ?thesis using split_on_nonempty[of c xs] by auto
  next
    case False
    then show ?thesis using Cons[of "tl a"] split_on_nonempty[of c xs]
      by (cases a; cases "split_on c xs") auto
  qed
qed

lemma split_on_two: "split_on c s = [a, b] \<longleftrightarrow> (s = a @ c # b \<and> c \<notin> set a \<and> c \<notin> set b)"
proof (induction s arbitrary: a)
  case Nil
  then show ?case by auto
next
  case (Cons x xs)
  show ?case
  proof (cases "x = c")
    case True
    then show ?thesis using split_on_single[of c xs b]
      by (cases a) auto
  next
    case False
    then show ?thesis using Cons[of "tl a"] split_on_nonempty[of c xs]
      by (cases a; cases "split_on c xs") auto
  qed
qed

lemma of_char_digit_char: "of_char (digit_char d) = (48 + d mod 10 :: nat)"
  by (simp add: digit_char_def)

lemma is_digit_digit_char: "is_digit (digit_char d)"
  by (simp add: is_digit_def of_char_digit_char)

lemma digit_val_digit_char: "digit_val (digit_char d) = d mod 10"
  by (simp add: digit_val_def of_char_digit_char)

lemma is_digit_not_int_space: "is_digit c \<Longrightarrow> \<not> is_int_space c"
  by (auto simp: is_digit_def is_int_space_def Let_def)

lemma char_of_48: "char_of (48::nat) = CHR ''0''"
  by code_simp

lemma is_digit_neq:
  assumes "is_digit c"
  shows "c \<noteq> CHR '':''" "c \<noteq> CHR ''_''" "c \<noteq> CHR ''-''" "c \<noteq> CHR ''+''"
  using assms by (auto simp: is_digit_def)

lemma pad2: "n < 100 \<Longrightarrow> pad_digits 2 n = [digit_char (n div 10), digit_char n]"
  by (simp add: pad_digits_def nat_digits.simps[of n] nat_digits.simps[of "n div 10"]
      digit_char_def char_of_48)

lemma py_int_two_digits:
  assumes "is_digit a" "is_digit b"
  shows "py_int limit [a, b] = Some (int (digit_val a * 10 + digit_val b))"
  using is_digit_neq[OF assms(1)] assms
  by (simp add: py_int_def int_strip_def is_digit_not_int_space nat_literal_def digits_ok_def
      digits_value_def too_many_digits_def)

lemma py_int_pad2: "n < 100 \<Longrightarrow> py_int limit (pad_digits 2 n) = Some (int n)"
  by (simp add: pad2 py_int_two_digits is_digit_digit_char digit_val_digit_char)

lemma split_on_length: "length (split_on c s) = Suc (length (filter (\<lambda>x. x = c) s))"
  by (induction s) (auto split: list.splits simp: split_on_nonempty)

lemma dropWhile_covers: "x \<in> set xs \<Longrightarrow> x \<in> set (dropWhile P xs) \<or> P x"
  by (induction xs) auto

lemma int_strip_covers:
  assumes "x \<in> set s"
  shows "x \<in> set (int_strip s) \<or> is_int_space x"
proof -
  from dropWhile_covers[OF assms, of is_int_space]
  have "x \<in> set (rev (dropWhile is_int_space s)) \<or> is_int_space x" by simp
  then show ?thesis
    using dropWhile_covers[of x "rev (dropWhile is_int_space s)" is_int_space]
    by (auto simp: int_strip_def)
qed

lemma nat_literal_chars:
  assumes "nat_literal limit s = Some v" "c \<in> set s"
  shows "is_digit c \<or> c = CHR ''_''"
  using assms by (auto simp: nat_literal_def digits_ok_def split: if_splits)

lemma py_int_chars:
  assumes "py_int limit s = Some v" "c \<in> set s"
  shows "is_digit c \<or> is_int_space c \<or> c = CHR ''+'' \<or> c = CHR ''-'' \<or> c = CHR ''_''"
proof -
  from int_strip_covers[OF assms(2)] show ?thesis
  proof
    assume "is_int_space c" then show ?thesis by simp
  next
    assume c: "c \<in> set (int_strip s)"
    then obtain a r where ar: "int_strip s = a # r" by (cases "int_strip s") auto
    with c have "c = a \<or> c \<in> set r" by simp
    with assms(1) ar nat_literal_chars[of limit r _ c] nat_literal_chars[of limit "a # r" _ c]
    show ?thesis
      by (auto simp: py_int_def split: if_splits)
  qed
qed


lemma hhmm_textD:
  assumes "hhmm_text s"
  obtains a b d e where "s = [a, b, CHR '':'', d, e]" "is_digit a" "is_digit b" "is_digit d"
    "is_digit e" "digit_val a * 10 + digit_val b < 24" "digit_val d * 10 + digit_val e < 60"
  using assms by (auto simp: hhmm_text_def split: list.splits)

lemma parse_time_env_hhmm_text:
  assumes "hhmm_text (env_or w name dflt)"
  shows "parse_time_env w name dflt =
     Inr \<lparr>hour = digit_val (env_or w name dflt ! 0) * 10 + digit_val (env_or w name dflt ! 1),
          minute = digit_val (env_or w name dflt ! 3) * 10 + digit_val (env_or w name dflt ! 4),
          second = 0, microsecond = 0\<rparr>"
proof -
  from assms obtain a b d e where raw: "env_or w name dflt = [a, b, CHR '':'', d, e]"
    and dg: "is_digit a" "is_digit b" "is_digit d" "is_digit e"
    and rg: "digit_val a * 10 + digit_val b < 24" "digit_val d * 10 + digit_val e < 60"
    by (rule hhmm_textD)
  have "split_on CHR '':'' ([a, b] @ CHR '':'' # [d, e]) = [[a, b], [d, e]]"
    using is_digit_neq(1)[OF dg(1)] is_digit_neq(1)[OF dg(2)]
      is_digit_neq(1)[OF dg(3)] is_digit_neq(1)[OF dg(4)]
    by (simp only: split_on_two) simp
  then have sp: "split_on CHR '':'' (env_or w name dflt) = [[a, b], [d, e]]"
    by (simp add: raw)
  have cast: "nat (int x * 10 + int y) = x * 10 + y" for x y :: nat
  proof -
    have "int x * 10 + int y = int (x * 10 + y)" by simp
    then show ?thesis by (simp only: nat_int)
  qed
  have "parse_time_env w name dflt =
     Inr \<lparr>hour = digit_val a * 10 + digit_val b, minute = digit_val d * 10 + digit_val e,
          second = 0, microsecond = 0\<rparr>"
    using rg
    by (simp add: parse_time_env_def sp py_int_two_digits dg make_time_def cast)
  then show ?thesis by (simp add: raw)
qed

lemma hhmm_text_pad:
  assumes "h < 24" "m < 60"
  shows "hhmm_text (pad_digits 2 h @ '':'' @ pad_digits 2 m)"
proof -
  from assms have "h < 100" "m < 100" by simp_all
  then show ?thesis
    using assms
    by (simp add: pad2 hhmm_text_def is_digit_digit_char digit_val_digit_char)
qed

lemma parse_time_env_hhmm:
  assumes "h < 24" "m < 60"
    and "env_or w name dflt = pad_digits 2 h @ '':'' @ pad_digits 2 m"
  shows "parse_time_env w name dflt = Inr \<lparr>hour = h, minute = m, second = 0, microsecond = 0\<rparr>"
proof -
  from assms have h: "h < 100" and m: "m < 100" by simp_all
  have "hhmm_text (env_or w name dflt)"
    using hhmm_text_pad[OF assms(1,2)] assms(3) by simp
  from parse_time_env_hhmm_text[OF this] show ?thesis
    using h m by (simp add: assms(3) pad2 digit_val_digit_char)
qed

lemma parse_time_env_failure:
  assumes "parse_time_env w name dflt = Inl e"
  shows "e = ValueError (''Invalid time value for '' @ name @ '': '' @ env_or w name dflt)"
  using assms
  by (auto simp: parse_time_env_def Let_def invalid_time_message_def
      split: list.splits option.splits)

lemma parse_time_env_success:
  "parse_time_env w name dflt = Inr t \<longleftrightarrow>
     (\<exists>hs ms. env_or w name dflt = hs @ '':'' @ ms
      \<and> CHR '':'' \<notin> set hs \<and> CHR '':'' \<notin> set ms
      \<and> py_int (int_max_str_digits w) hs = Some (int (hour t))
      \<and> py_int (int_max_str_digits w) ms = Some (int (minute t))
      \<and> hour t < 24 \<and> minute t < 60 \<and> second t = 0 \<and> microsecond t = 0)"
  (is "?lhs \<longleftrightarrow> ?rhs")
proof
  assume ?lhs
  then obtain hs ms hv mv where sp: "split_on CHR '':'' (env_or w name dflt) = [hs, ms]"
    and hv: "py_int (int_max_str_digits w) hs = Some hv"
    and mv: "py_int (int_max_str_digits w) ms = Some mv"
    and mk: "make_time hv mv = Some t"
    by (auto simp: parse_time_env_def Let_def split: list.splits option.splits)
  from mk have "hv = int (hour t)" "mv = int (minute t)" "hour t < 24" "minute t < 60"
    "second t = 0" "microsecond t = 0"
    by (auto simp: make_time_def split: if_splits)
  with sp hv mv show ?rhs
    by (auto simp: split_on_two)
next
  assume ?rhs
  then obtain hs ms where raw: "env_or w name dflt = hs @ CHR '':'' # ms"
    and nc: "CHR '':'' \<notin> set hs" "CHR '':'' \<notin> set ms"
    and hv: "py_int (int_max_str_digits w) hs = Some (int (hour t))"
    and mv: "py_int (int_max_str_digits w) ms = Some (int (minute t))"
    and rg: "hour t < 24" "minute t < 60" "second t = 0" "microsecond t = 0"
    by auto
  from nc have sp: "split_on CHR '':'' (hs @ CHR '':'' # ms) = [hs, ms]"
    by (simp only: split_on_two) simp
  from rg have "make_time (int (hour t)) (int (minute t)) = Some t"
    by (simp add: make_time_def)
  with sp hv mv show ?lhs
    by (simp add: parse_time_env_def raw)
qed

lemma parse_time_env_colons:
  assumes "length (filter (\<lambda>c. c = CHR '':'') (env_or w name dflt)) \<noteq> 1"
  shows "\<exists>e. parse_time_env w name dflt = Inl e"
proof -
  from assms have "length (split_on CHR '':'' (env_or w name dflt)) \<noteq> 2"
    by (simp add: split_on_length)
  then show ?thesis
    by (auto simp: parse_time_env_def Let_def split: list.splits)
qed

lemma parse_time_env_stray:
  assumes "c \<in> set (env_or w name dflt)"
    and "\<not> is_digit c" "\<not> is_int_space c"
    and "c \<noteq> CHR '':''" "c \<noteq> CHR ''+''" "c \<noteq> CHR ''-''" "c \<noteq> CHR ''_''"
  shows "\<exists>e. parse_time_env w name dflt = Inl e"
proof (cases "parse_time_env w name dflt")
  case (Inl e)
  then show ?thesis by blast
next
  case (Inr t)
  then obtain hs ms where raw: "env_or w name dflt = hs @ '':'' @ ms"
    and hv: "py_int (int_max_str_digits w) hs = Some (int (hour t))"
    and mv: "py_int (int_max_str_digits w) ms = Some (int (minute t))"
    unfolding parse_time_env_success by blast
  from assms(1,4) raw have "c \<in> set hs \<or> c \<in> set ms" by auto
  with py_int_chars[OF hv, of c] py_int_chars[OF mv, of c] assms(2,3,5,6,7)
  show ?thesis by blast
qed

lemma default_window_text:
  "''05:30'' = pad_digits 2 5 @ '':'' @ pad_digits 2 30"
  "''17:30'' = pad_digits 2 17 @ '':'' @ pad_digits 2 30"
  by code_simp+


text \<open>
  Claim C4, as the code has it. Parsing a time-window variable whose value is a well-formed
  \<^verbatim>\<open>HH:MM\<close> string returns that time of day. Every failure is the configuration error
  \<^verbatim>\<open>Invalid time value for <variable>: <value>\<close>, which names the variable. The values
  that parse are exactly those that split at their one colon into two integer literals as
  \<^verbatim>\<open>int()\<close> reads them (whitespace around, an optional sign, single underscores between
  digits), the hour below 24 and the minute below 60; this is more than the form
  \<^verbatim>\<open>HH:MM\<close>. A value without exactly one colon fails, and so does a value with any
  character other than a digit, that whitespace, a colon, a sign or an underscore.
\<close>

theorem parse_time_env_spec:
  "(hhmm_text (env_or w name dflt) \<longrightarrow>
      parse_time_env w name dflt =
        Inr \<lparr>hour = digit_val (env_or w name dflt ! 0) * 10 + digit_val (env_or w name dflt ! 1),
             minute = digit_val (env_or w name dflt ! 3) * 10 + digit_val (env_or w name dflt ! 4),
             second = 0, microsecond = 0\<rparr>)
   \<and> (h < 24 \<and> m < 60 \<and> env_or w name dflt = pad_digits 2 h @ '':'' @ pad_digits 2 m \<longrightarrow>
      parse_time_env w name dflt = Inr \<lparr>hour = h, minute = m, second = 0, microsecond = 0\<rparr>)
   \<and> (\<forall>e. parse_time_env w name dflt = Inl e \<longrightarrow>
         e = ValueError (''Invalid time value for '' @ name @ '': '' @ env_or w name dflt)
         \<and> (\<exists>msg. e = ValueError msg \<and> sublist name msg))
   \<and> (\<forall>t. parse_time_env w name dflt = Inr t \<longleftrightarrow>
         (\<exists>hs ms. env_or w name dflt = hs @ '':'' @ ms
            \<and> CHR '':'' \<notin> set hs \<and> CHR '':'' \<notin> set ms
            \<and> py_int (int_max_str_digits w) hs = Some (int (hour t))
            \<and> py_int (int_max_str_digits w) ms = Some (int (minute t))
            \<and> hour t < 24 \<and> minute t < 60 \<and> second t = 0 \<and> microsecond t = 0))
   \<and> (length (filter (\<lambda>c. c = CHR '':'') (env_or w name dflt)) \<noteq> 1 \<longrightarrow>
         (\<exists>e. parse_time_env w name dflt = Inl e))
   \<and> ((\<exists>c \<in> set (env_or w name dflt). \<not> is_digit c \<and> \<not> is_int_space c
           \<and> c \<noteq> CHR '':'' \<and> c \<noteq> CHR ''+'' \<and> c \<noteq> CHR ''-'' \<and> c \<noteq> CHR ''_'') \<longrightarrow>
         (\<exists>e. parse_time_env w name dflt = Inl e))"
proof (intro conjI allI impI)
  assume "hhmm_text (env_or w name dflt)"
  then show "parse_time_env w name dflt =
        Inr \<lparr>hour = digit_val (env_or w name dflt ! 0) * 10 + digit_val (env_or w name dflt ! 1),
             minute = digit_val (env_or w name dflt ! 3) * 10 + digit_val (env_or w name dflt ! 4),
             second = 0, microsecond = 0\<rparr>"
    by (rule parse_time_env_hhmm_text)
next
  assume "h < 24 \<and> m < 60 \<and> env_or w name dflt = pad_digits 2 h @ '':'' @ pad_digits 2 m"
  then show "parse_time_env w name dflt
      = Inr \<lparr>hour = h, minute = m, second = 0, microsecond = 0\<rparr>"
    by (simp add: parse_time_env_hhmm)
next
  fix e
  assume "parse_time_env w name dflt = Inl e"
  then show e: "e = ValueError (''Invalid time value for '' @ name @ '': '' @ env_or w name dflt)"
    by (rule parse_time_env_failure)
  then show "\<exists>msg. e = ValueError msg \<and> sublist name msg"
    by (blast intro: sublist_appendI)
next
  fix t
  show "parse_time_env w name dflt = Inr t \<longleftrightarrow>
         (\<exists>hs ms. env_or w name dflt = hs @ '':'' @ ms
            \<and> CHR '':'' \<notin> set hs \<and> CHR '':'' \<notin> set ms
            \<and> py_int (int_max_str_digits w) hs = Some (int (hour t))
            \<and> py_int (int_max_str_digits w) ms = Some (int (minute t))
            \<and> hour t < 24 \<and> minute t < 60 \<and> second t = 0 \<and> microsecond t = 0)"
    by (rule parse_time_env_success)
next
  assume "length (filter (\<lambda>c. c = CHR '':'') (env_or w name dflt)) \<noteq> 1"
  then show "\<exists>e. parse_time_env w name dflt = Inl e"
    by (rule parse_time_env_colons)
next
  assume "\<exists>c \<in> set (env_or w name dflt). \<not> is_digit c \<and> \<not> is_int_space c
           \<and> c \<noteq> CHR '':'' \<and> c \<noteq> CHR ''+'' \<and> c \<noteq> CHR ''-'' \<and> c \<noteq> CHR ''_''"
  then show "\<exists>e. parse_time_env w name dflt = Inl e"
    using parse_time_env_stray by blast
qed

theorem parse_time_env_spec_witness:
  "parse_time_env (env_world (test_environ(''WINDOW_START'' \<mapsto> ''06:15''))) ''WINDOW_START'' ''05:30''
     = Inr (clock_time 6 15)
   \<and> parse_time_env (env_world (test_environ(''WINDOW_START'' \<mapsto> ''not-a-time'')))
        ''WINDOW_START'' ''05:30''
     = Inl (ValueError ''Invalid time value for WINDOW_START: not-a-time'')"
proof -
  let ?good = "env_world (test_environ(''WINDOW_START'' \<mapsto> ''06:15''))"
  let ?bad = "env_world (test_environ(''WINDOW_START'' \<mapsto> ''not-a-time''))"
  have g: "env_or ?good ''WINDOW_START'' ''05:30'' = pad_digits 2 6 @ '':'' @ pad_digits 2 15"
    by (simp add: env_or_def env_world_def pad2 digit_char_def) code_simp
  have b: "env_or ?bad ''WINDOW_START'' ''05:30'' = ''not-a-time''"
    by (simp add: env_or_def env_world_def)
  have stray: "\<not> is_digit CHR ''n''" "\<not> is_int_space CHR ''n''"
    by (simp_all add: is_digit_def is_int_space_def)
  have "\<exists>c \<in> set (env_or ?bad ''WINDOW_START'' ''05:30''). \<not> is_digit c \<and> \<not> is_int_space c
           \<and> c \<noteq> CHR '':'' \<and> c \<noteq> CHR ''+'' \<and> c \<noteq> CHR ''-'' \<and> c \<noteq> CHR ''_''"
    unfolding b using stray by (intro bexI[of _ "CHR ''n''"]) simp_all
  with parse_time_env_spec[of ?bad "''WINDOW_START''" "''05:30''" 0 0]
  obtain e where "parse_time_env ?bad ''WINDOW_START'' ''05:30'' = Inl e"
    by blast
  then have "parse_time_env ?bad ''WINDOW_START'' ''05:30''
      = Inl (ValueError ''Invalid time value for WINDOW_START: not-a-time'')"
    using parse_time_env_spec[of ?bad "''WINDOW_START''" "''05:30''" 0 0] b by simp
  then show ?thesis
    using parse_time_env_spec[of ?good "''WINDOW_START''" "''05:30''" 6 15] g
    by (simp add: clock_time_def)
qed

text \<open>The claim as written fails: these values are not of the form \<^verbatim>\<open>HH:MM\<close>, and the
  parser does not fail on them.\<close>

theorem parse_time_env_counterexample:
  "\<not> hhmm_text ''+6:1_5''
   \<and> parse_time_env (env_world (test_environ(''WINDOW_START'' \<mapsto> ''+6:1_5'')))
        ''WINDOW_START'' ''05:30'' = Inr (clock_time 6 15)
   \<and> \<not> hhmm_text ''6:15''
   \<and> parse_time_env (env_world (test_environ(''WINDOW_START'' \<mapsto> ''6:15'')))
        ''WINDOW_START'' ''05:30'' = Inr (clock_time 6 15)"
  by code_simp

section \<open>Loading the configuration\<close>

lemma get_env_Some: "get_env w n (Some d) = Inr (env_or w n d)"
  by (simp add: get_env_def getenv_def env_or_def split: option.splits)

lemma get_env_None:
  "get_env w n None = (case environ w n of
       None \<Rightarrow> Inl (ValueError (''Missing required environment variable: '' @ n))
     | Some v \<Rightarrow> Inr v)"
  by (simp add: get_env_def getenv_def split: option.splits)

lemma parse_time_env_error:
  "parse_time_env w n d = Inl e \<Longrightarrow> \<exists>msg. e = ValueError msg"
  by (auto simp: parse_time_env_def Let_def split: list.splits option.splits)

lemma load_config_error: "load_config w = Inl e \<Longrightarrow> \<exists>msg. e = ValueError msg"
  unfolding load_config_def
  by (auto simp: bindR_def get_env_Some get_env_None dest: parse_time_env_error
      split: sum.splits option.splits)

lemma main_config_error:
  "load_config w = Inl (ValueError msg) \<Longrightarrow> main w s = (Inr 1, s\<lparr>stdout := stdout s @ [msg]\<rparr>)"
  by (simp add: main_def thenE_def bindE_def print_def returnE_def)

lemma load_config_missing:
  assumes "environ w ''JIRA_BASE_URL'' = None \<or> environ w ''JIRA_EMAIL'' = None
     \<or> environ w ''JIRA_API_TOKEN'' = None \<or> environ w ''JIRA_ASSIGNEE_ACCOUNT_ID'' = None"
  shows "\<exists>e. load_config w = Inl e"
  using assms unfolding load_config_def
  by (auto simp: bindR_def get_env_Some get_env_None split: sum.splits option.splits)

lemma load_config_window:
  "parse_time_env w ''WINDOW_START'' ''05:30'' = Inl e \<Longrightarrow> load_config w = Inl e"
  "parse_time_env w ''WINDOW_START'' ''05:30'' = Inr t \<Longrightarrow>
   parse_time_env w ''WINDOW_END'' ''17:30'' = Inl e \<Longrightarrow> load_config w = Inl e"
  unfolding load_config_def by (simp_all add: bindR_def)

lemma load_config_ok:
  assumes "environ w ''JIRA_BASE_URL'' = Some url" "environ w ''JIRA_EMAIL'' = Some email"
    "environ w ''JIRA_API_TOKEN'' = Some token" "environ w ''JIRA_ASSIGNEE_ACCOUNT_ID'' = Some acct"
    "parse_time_env w ''WINDOW_START'' ''05:30'' = Inr ws"
    "parse_time_env w ''WINDOW_END'' ''17:30'' = Inr we"
  shows "load_config w = Inr
     \<lparr>jira_base_url = url,
      jira_email = email,
      jira_api_token = token,
      jira_assignee_account_id = acct,
      project_key = env_or w ''PROJECT_KEY'' ''TS'',
      assignee_fallback = env_or w ''ASSIGNEE_FALLBACK'' ''currentUser()'',
      status_field_id = env_or w ''STATUS_FIELD_ID'' ''customfield_10353'',
      todo_transition = env_or w ''STATUS_TRANSITION_TODO_TO_IN_PROGRESS'' ''To-Do'',
      in_progress_transition = env_or w ''STATUS_TRANSITION_IN_PROGRESS_TO_WAITING'' ''Iprogress'',
      waiting_transition = env_or w ''STATUS_TRANSITION_WAITING_TO_IN_PROGRESS'' ''Wating for clinet'',
      use_confluence_kb = (py_lower (env_or w ''USE_CONFLUENCE_KB'' ''false'') = ''true''),
      confluence_base_url = env_or w ''CONFLUENCE_BASE_URL'' ''https://certifyos.atlassian.net/wiki'',
      confluence_space_key = env_or w ''CONFLUENCE_SPACE_KEY'' ''TS'',
      openai_api_key = environ w ''OPENAI_API_KEY'',
      openai_model = env_or w ''OPENAI_MODEL'' ''gpt-4o-mini'',
      timezone = environ w ''TIMEZONE'',
      window_start = ws,
      window_end = we,
      last_run_path = env_or w ''LAST_RUN_PATH'' ''last_run.json''\<rparr>"
  unfolding load_config_def using assms
  by (simp add: bindR_def get_env_Some get_env_None)

lemma parse_default_start: "environ w ''WINDOW_START'' = None \<Longrightarrow>
   parse_time_env w ''WINDOW_START'' ''05:30'' = Inr (clock_time 5 30)"
  using parse_time_env_hhmm[of 5 30 w "''WINDOW_START''" "''05:30''"] default_window_text(1)
  by (simp add: env_or_def clock_time_def)

lemma parse_default_end: "environ w ''WINDOW_END'' = None \<Longrightarrow>
   parse_time_env w ''WINDOW_END'' ''17:30'' = Inr (clock_time 17 30)"
  using parse_time_env_hhmm[of 17 30 w "''WINDOW_END''" "''17:30''"] default_window_text(2)
  by (simp add: env_or_def clock_time_def)

text \<open>
  Claim C8, as the code has it. When one of the required variables \<^verbatim>\<open>JIRA_BASE_URL\<close>,
  \<^verbatim>\<open>JIRA_EMAIL\<close>, \<^verbatim>\<open>JIRA_API_TOKEN\<close>, \<^verbatim>\<open>JIRA_ASSIGNEE_ACCOUNT_ID\<close> is absent, loading
  fails with a configuration error, \<^verbatim>\<open>main\<close> prints it and returns status 1, and no
  request is sent. A window variable that does not parse makes loading fail in the same
  way, whatever else is set. When the four required variables are present and both window
  variables parse, loading succeeds: each optional variable has its value or its
  documented default, and an unset window bound is 05:30 or 17:30.
\<close>

theorem load_config_spec:
  "((environ w ''JIRA_BASE_URL'' = None \<or> environ w ''JIRA_EMAIL'' = None
      \<or> environ w ''JIRA_API_TOKEN'' = None \<or> environ w ''JIRA_ASSIGNEE_ACCOUNT_ID'' = None) \<longrightarrow>
     (\<exists>msg. load_config w = Inl (ValueError msg)
        \<and> main w s = (Inr 1, s\<lparr>stdout := stdout s @ [msg]\<rparr>)
        \<and> trace (snd (main w s)) = trace s))
   \<and> ((\<exists>e. parse_time_env w ''WINDOW_START'' ''05:30'' = Inl e
          \<or> parse_time_env w ''WINDOW_END'' ''17:30'' = Inl e) \<longrightarrow>
     (\<exists>msg. load_config w = Inl (ValueError msg)
        \<and> main w s = (Inr 1, s\<lparr>stdout := stdout s @ [msg]\<rparr>)))
   \<and> (environ w ''JIRA_BASE_URL'' = Some url \<and> environ w ''JIRA_EMAIL'' = Some email
      \<and> environ w ''JIRA_API_TOKEN'' = Some token
      \<and> environ w ''JIRA_ASSIGNEE_ACCOUNT_ID'' = Some acct
      \<and> parse_time_env w ''WINDOW_START'' ''05:30'' = Inr ws
      \<and> parse_time_env w ''WINDOW_END'' ''17:30'' = Inr we \<longrightarrow>
     load_config w = Inr
       \<lparr>jira_base_url = url,
        jira_email = email,
        jira_api_token = token,
        jira_assignee_account_id = acct,
        project_key = env_or w ''PROJECT_KEY'' ''TS'',
        assignee_fallback = env_or w ''ASSIGNEE_FALLBACK'' ''currentUser()'',
        status_field_id = env_or w ''STATUS_FIELD_ID'' ''customfield_10353'',
        todo_transition = env_or w ''STATUS_TRANSITION_TODO_TO_IN_PROGRESS'' ''To-Do'',
        in_progress_transition =
          env_or w ''STATUS_TRANSITION_IN_PROGRESS_TO_WAITING'' ''Iprogress'',
        waiting_transition =
          env_or w ''STATUS_TRANSITION_WAITING_TO_IN_PROGRESS'' ''Wating for clinet'',
        use_confluence_kb = (py_lower (env_or w ''USE_CONFLUENCE_KB'' ''false'') = ''true''),
        confluence_base_url =
          env_or w ''CONFLUENCE_BASE_URL'' ''https://certifyos.atlassian.net/wiki'',
        confluence_space_key = env_or w ''CONFLUENCE_SPACE_KEY'' ''TS'',
        openai_api_key = environ w ''OPENAI_API_KEY'',
        openai_model = env_or w ''OPENAI_MODEL'' ''gpt-4o-mini'',
        timezone = environ w ''TIMEZONE'',
        window_start = ws,
        window_end = we,
        last_run_path = env_or w ''LAST_RUN_PATH'' ''last_run.json''\<rparr>)
   \<and> (environ w ''WINDOW_START'' = None \<longrightarrow>
        parse_time_env w ''WINDOW_START'' ''05:30'' = Inr (clock_time 5 30))
   \<and> (environ w ''WINDOW_END'' = None \<longrightarrow>
        parse_time_env w ''WINDOW_END'' ''17:30'' = Inr (clock_time 17 30))"
proof (intro conjI impI)
  assume "environ w ''JIRA_BASE_URL'' = None \<or> environ w ''JIRA_EMAIL'' = None
      \<or> environ w ''JIRA_API_TOKEN'' = None \<or> environ w ''JIRA_ASSIGNEE_ACCOUNT_ID'' = None"
  then obtain e where "load_config w = Inl e"
    using load_config_missing by blast
  then obtain msg where "load_config w = Inl (ValueError msg)"
    using load_config_error by blast
  then show "\<exists>msg. load_config w = Inl (ValueError msg)
        \<and> main w s = (Inr 1, s\<lparr>stdout := stdout s @ [msg]\<rparr>)
        \<and> trace (snd (main w s)) = trace s"
    by (auto simp: main_config_error)
next
  assume "\<exists>e. parse_time_env w ''WINDOW_START'' ''05:30'' = Inl e
          \<or> parse_time_env w ''WINDOW_END'' ''17:30'' = Inl e"
  then obtain e where "load_config w = Inl e"
    using load_config_window
    by (cases "parse_time_env w ''WINDOW_START'' ''05:30''") blast+
  then obtain msg where "load_config w = Inl (ValueError msg)"
    using load_config_error by blast
  then show "\<exists>msg. load_config w = Inl (ValueError msg)
        \<and> main w s = (Inr 1, s\<lparr>stdout := stdout s @ [msg]\<rparr>)"
    by (auto simp: main_config_error)
next
  assume "environ w ''JIRA_BASE_URL'' = Some url \<and> environ w ''JIRA_EMAIL'' = Some email
      \<and> environ w ''JIRA_API_TOKEN'' = Some token
      \<and> environ w ''JIRA_ASSIGNEE_ACCOUNT_ID'' = Some acct
      \<and> parse_time_env w ''WINDOW_START'' ''05:30'' = Inr ws
      \<and> parse_time_env w ''WINDOW_END'' ''17:30'' = Inr we"
  then show "load_config w = Inr
       \<lparr>jira_base_url = url,
        jira_email = email,
        jira_api_token = token,
        jira_assignee_account_id = acct,
        project_key = env_or w ''PROJECT_KEY'' ''TS'',
        assignee_fallback = env_or w ''ASSIGNEE_FALLBACK'' ''currentUser()'',
        status_field_id = env_or w ''STATUS_FIELD_ID'' ''customfield_10353'',
        todo_transition = env_or w ''STATUS_TRANSITION_TODO_TO_IN_PROGRESS'' ''To-Do'',
        in_progress_transition =
          env_or w ''STATUS_TRANSITION_IN_PROGRESS_TO_WAITING'' ''Iprogress'',
        waiting_transition =
          env_or w ''STATUS_TRANSITION_WAITING_TO_IN_PROGRESS'' ''Wating for clinet'',
        use_confluence_kb = (py_lower (env_or w ''USE_CONFLUENCE_KB'' ''false'') = ''true''),
        confluence_base_url =
          env_or w ''CONFLUENCE_BASE_URL'' ''https://certifyos.atlassian.net/wiki'',
        confluence_space_key = env_or w ''CONFLUENCE_SPACE_KEY'' ''TS'',
        openai_api_key = environ w ''OPENAI_API_KEY'',
        openai_model = env_or w ''OPENAI_MODEL'' ''gpt-4o-mini'',
        timezone = environ w ''TIMEZONE'',
        window_start = ws,
        window_end = we,
        last_run_path = env_or w ''LAST_RUN_PATH'' ''last_run.json''\<rparr>"
    by (intro load_config_ok) simp_all
qed (rule parse_default_start parse_default_end, assumption)+

theorem load_config_spec_witness:
  "load_config (env_world test_environ) = Inr test_config
   \<and> main (env_world (test_environ(''JIRA_EMAIL'' := None))) idle_state
       = (Inr 1, idle_state\<lparr>stdout :=
            [''Missing required environment variable: JIRA_EMAIL'']\<rparr>)"
proof -
  let ?w = "env_world test_environ"
  let ?m = "env_world (test_environ(''JIRA_EMAIL'' := None))"
  have env: "environ ?w ''JIRA_BASE_URL'' = Some ''https://example.atlassian.net''"
    "environ ?w ''JIRA_EMAIL'' = Some ''anurag.rai@certifyos.com''"
    "environ ?w ''JIRA_API_TOKEN'' = Some ''token''"
    "environ ?w ''JIRA_ASSIGNEE_ACCOUNT_ID'' = Some ''712020:abc''"
    "environ ?w ''WINDOW_START'' = None" "environ ?w ''WINDOW_END'' = None"
    by (simp_all add: env_world_def test_environ_def)
  have opt: "env_or ?w ''PROJECT_KEY'' ''TS'' = ''TS''"
    "env_or ?w ''ASSIGNEE_FALLBACK'' ''currentUser()'' = ''currentUser()''"
    "env_or ?w ''STATUS_FIELD_ID'' ''customfield_10353'' = ''customfield_10353''"
    "env_or ?w ''STATUS_TRANSITION_TODO_TO_IN_PROGRESS'' ''To-Do'' = ''To-Do''"
    "env_or ?w ''STATUS_TRANSITION_IN_PROGRESS_TO_WAITING'' ''Iprogress'' = ''Iprogress''"
    "env_or ?w ''STATUS_TRANSITION_WAITING_TO_IN_PROGRESS'' ''Wating for clinet''
       = ''Wating for clinet''"
    "py_lower (env_or ?w ''USE_CONFLUENCE_KB'' ''false'') \<noteq> ''true''"
    "env_or ?w ''CONFLUENCE_BASE_URL'' ''https://certifyos.atlassian.net/wiki''
       = ''https://example.atlassian.net/wiki''"
    "env_or ?w ''CONFLUENCE_SPACE_KEY'' ''TS'' = ''TS''"
    "environ ?w ''OPENAI_API_KEY'' = None"
    "env_or ?w ''OPENAI_MODEL'' ''gpt-4o-mini'' = ''gpt-4o-mini''"
    "environ ?w ''TIMEZONE'' = None"
    "env_or ?w ''LAST_RUN_PATH'' ''last_run.json'' = ''last_run.json''"
    by (simp_all add: env_or_def env_world_def test_environ_def py_lower_def lower_char_def)
  have ok: "load_config ?w = Inr test_config"
    using load_config_spec[of ?w idle_state "''https://example.atlassian.net''"
        "''anurag.rai@certifyos.com''" "''token''" "''712020:abc''"
        "clock_time 5 30" "clock_time 17 30"] env opt
    by (simp add: test_config_def)
  have miss: "environ ?m ''JIRA_EMAIL'' = None"
    by (simp add: env_world_def)
  have "load_config ?m = Inl (ValueError ''Missing required environment variable: JIRA_EMAIL'')"
    by code_simp
  with load_config_spec[of ?m idle_state] miss
  have "main ?m idle_state
       = (Inr 1, idle_state\<lparr>stdout := stdout idle_state
            @ [''Missing required environment variable: JIRA_EMAIL'']\<rparr>)"
    by auto
  with ok show ?thesis by (simp add: idle_state_def)
qed

text \<open>The claim as written fails: with every required variable present, loading still
  fails when a window variable is not a time.\<close>

theorem load_config_counterexample:
  "environ bad_window_world ''JIRA_BASE_URL'' = Some ''https://example.atlassian.net''
   \<and> environ bad_window_world ''JIRA_EMAIL'' = Some ''anurag.rai@certifyos.com''
   \<and> environ bad_window_world ''JIRA_API_TOKEN'' = Some ''token''
   \<and> environ bad_window_world ''JIRA_ASSIGNEE_ACCOUNT_ID'' = Some ''712020:abc''
   \<and> load_config bad_window_world
       = Inl (ValueError ''Invalid time value for WINDOW_START: not-a-time'')"
  by code_simp

section \<open>The candidate search\<close>

lemma search_jql_text:
  \<open>search_jql cfg last_run =
     ''project = "'' @ project_key cfg
       @ ''" AND assignee is EMPTY AND status = "To-Do" AND statusCategory != Done AND updated >= "''
       @ isoformat last_run @ ''" ORDER BY created ASC''\<close>
  by (simp add: search_jql_def)

lemma search_jql_project:
  \<open>sublist (''project = "'' @ project_key cfg @ ''"'') (search_jql cfg last_run)\<close>
  unfolding sublist_def
  by (rule exI[of _ "[]"], rule exI[of _ \<open>'' AND assignee is EMPTY AND status = "To-Do" AND statusCategory != Done AND updated >= "'' @ isoformat last_run @ ''" ORDER BY created ASC''\<close>])
     (simp add: search_jql_def)

lemma search_jql_status:
  \<open>sublist ''status = "To-Do"'' (search_jql cfg last_run)\<close>
  unfolding sublist_def
  by (rule exI[of _ \<open>''project = "'' @ project_key cfg @ ''" AND assignee is EMPTY AND ''\<close>],
      rule exI[of _ \<open>'' AND statusCategory != Done AND updated >= "'' @ isoformat last_run @ ''" ORDER BY created ASC''\<close>])
     (simp add: search_jql_def)

lemma search_jql_updated:
  \<open>sublist (''updated >= "'' @ isoformat last_run @ ''"'') (search_jql cfg last_run)\<close>
  unfolding sublist_def
  by (rule exI[of _ \<open>''project = "'' @ project_key cfg @ ''" AND assignee is EMPTY AND status = "To-Do" AND statusCategory != Done AND ''\<close>],
      rule exI[of _ \<open>'' ORDER BY created ASC''\<close>])
     (simp add: search_jql_def)

lemma jira_search_issues_trace:
  "trace (snd (jira_search_issues w cfg last_run s)) = trace s @ [search_request cfg last_run]"
  by (simp add: jira_search_issues_def bindE_def send_def liftE_def)

lemma isoformat_example: "isoformat (naive 2024 1 2 3 4 5) = ''2024-01-02T03:04:05''"
  by code_simp

lemma open_label_jql:
  \<open>search_jql open_label_config (naive 2024 1 2 3 4 5)
     = ''project = "TS" AND assignee is EMPTY AND status = "To-Do" AND statusCategory != Done AND updated >= "2024-01-02T03:04:05" ORDER BY created ASC''\<close>
  by (simp only: search_jql_text isoformat_example)
    (simp add: open_label_config_def test_config_def)

text \<open>
  Claim C3, as the code has it. For every configuration and watermark the search sends one
  GET request to \<^verbatim>\<open>/rest/api/3/search/jql\<close> whose query is: the configured project key,
  empty assignee, status equal to the fixed label \<^verbatim>\<open>To-Do\<close>, status category not
  \<^verbatim>\<open>Done\<close>, updated at or after the watermark in ISO-8601 form, ordered by creation
  ascending. The query contains the project clause, the status clause and the
  \<^verbatim>\<open>updated >=\<close> clause with the watermark. The status label is not taken from the
  configuration: no other configured name changes the query.
\<close>

theorem search_jql_spec:
  \<open>search_jql cfg last_run =
     ''project = "'' @ project_key cfg
       @ ''" AND assignee is EMPTY AND status = "To-Do" AND statusCategory != Done AND updated >= "''
       @ isoformat last_run @ ''" ORDER BY created ASC''
   \<and> sublist (''project = "'' @ project_key cfg @ ''"'') (search_jql cfg last_run)
   \<and> sublist ''status = "To-Do"'' (search_jql cfg last_run)
   \<and> sublist (''updated >= "'' @ isoformat last_run @ ''"'') (search_jql cfg last_run)
   \<and> trace (snd (jira_search_issues w cfg last_run s)) = trace s @ [search_request cfg last_run]
   \<and> req_method (search_request cfg last_run) = GET
   \<and> req_url (search_request cfg last_run) = jira_base_url cfg @ ''/rest/api/3/search/jql''
   \<and> req_params (search_request cfg last_run) = [(''jql'', search_jql cfg last_run)]
   \<and> search_jql (cfg\<lparr>todo_transition := a, in_progress_transition := b,
                      waiting_transition := c, status_field_id := d\<rparr>) last_run
       = search_jql cfg last_run\<close>
  by (intro conjI search_jql_text search_jql_project search_jql_status search_jql_updated
      jira_search_issues_trace) (simp_all add: search_request_def search_jql_def)

theorem search_jql_spec_witness:
  \<open>search_jql test_config (naive 2024 1 2 3 4 5)
     = ''project = "TS" AND assignee is EMPTY AND status = "To-Do" AND statusCategory != Done AND updated >= "2024-01-02T03:04:05" ORDER BY created ASC''
   \<and> sublist ''project = "TS"'' (search_jql test_config (naive 2024 1 2 3 4 5))
   \<and> sublist ''status = "To-Do"'' (search_jql test_config (naive 2024 1 2 3 4 5))
   \<and> sublist ''updated >= "2024-01-02T03:04:05"'' (search_jql test_config (naive 2024 1 2 3 4 5))\<close>
proof -
  have pk: "project_key test_config = ''TS''"
    by (simp add: test_config_def)
  from search_jql_spec[of test_config "naive 2024 1 2 3 4 5" "env_world test_environ"
      idle_state "[]" "[]" "[]" "[]", unfolded isoformat_example pk]
  show ?thesis by (elim conjE, intro conjI) (simp only: append.simps)+
qed

text \<open>The claim as written fails: with the first transition named \<^verbatim>\<open>Open\<close> in the
  configuration, the query still asks for status \<^verbatim>\<open>To-Do\<close> and nowhere for \<^verbatim>\<open>Open\<close>.\<close>

theorem search_jql_counterexample:
  \<open>todo_transition open_label_config = ''Open''
   \<and> \<not> sublist ''status = "Open"'' (search_jql open_label_config (naive 2024 1 2 3 4 5))
   \<and> sublist ''status = "To-Do"'' (search_jql open_label_config (naive 2024 1 2 3 4 5))\<close>
proof -
  have \<open>\<not> sublist ''status = "Open"'' ''project = "TS" AND assignee is EMPTY AND status = "To-Do" AND statusCategory != Done AND updated >= "2024-01-02T03:04:05" ORDER BY created ASC''\<close>
    by code_simp
  then show ?thesis
    by (simp only: open_label_jql[symmetric] search_jql_status)
      (simp add: open_label_config_def)
qed

section \<open>The templated reply\<close>

lemma build_default_reply_summary:
  assumes "issue = JObj kvs" "map_of kvs ''fields'' = Some (JObj fs)"
    "map_of fs ''summary'' = Some (JStr summary)"
  shows "build_default_reply w issue =
     Inr (''Thanks for reaching out! We received **'' @ summary
          @ ''**. Our team will review this shortly and respond with next steps.'')"
  using assms by (simp add: build_default_reply_def bindR_def py_str_def)

lemma build_default_reply_no_summary:
  assumes "issue = JObj kvs"
    "map_of kvs ''fields'' = None \<or> (\<exists>fs. map_of kvs ''fields'' = Some (JObj fs) \<and> map_of fs ''summary'' = None)"
  shows "build_default_reply w issue =
     Inr (''Thanks for reaching out! We received **your ticket**. Our team will review this shortly and respond with next steps.'')"
  using assms by (auto simp: build_default_reply_def bindR_def py_str_def)

lemma generate_ai_reply_no_key:
  assumes "openai_api_key cfg = None \<or> openai_api_key cfg = Some []"
  shows "generate_ai_reply w cfg issue s = (build_default_reply w issue, s)"
  using assms by (auto simp: generate_ai_reply_def liftE_def)

text \<open>
  Claim C9. When no generation-API key is configured (the key is unset or empty), reply
  generation for a ticket with a summary returns exactly the template
  \<^verbatim>\<open>Thanks for reaching out! We received **{summary}**. Our team will review this shortly
  and respond with next steps.\<close> with the summary substituted, sends no request, and the
  returned text contains the summary.
\<close>

theorem generate_ai_reply_default:
  assumes "openai_api_key cfg = None \<or> openai_api_key cfg = Some []"
    and "issue = JObj kvs" "map_of kvs ''fields'' = Some (JObj fs)"
    and "map_of fs ''summary'' = Some (JStr summary)"
  shows "generate_ai_reply w cfg issue s =
       (Inr (''Thanks for reaching out! We received **'' @ summary
             @ ''**. Our team will review this shortly and respond with next steps.''), s)
     \<and> (\<forall>reply. fst (generate_ai_reply w cfg issue s) = Inr reply \<longrightarrow> sublist summary reply)"
proof (intro conjI allI impI)
  show r: "generate_ai_reply w cfg issue s =
       (Inr (''Thanks for reaching out! We received **'' @ summary
             @ ''**. Our team will review this shortly and respond with next steps.''), s)"
    using assms(2-)
    by (simp only: generate_ai_reply_no_key[OF assms(1)] build_default_reply_summary)
  fix reply
  assume "fst (generate_ai_reply w cfg issue s) = Inr reply"
  then have "reply = ''Thanks for reaching out! We received **'' @ summary
             @ ''**. Our team will review this shortly and respond with next steps.''"
    unfolding r by simp
  then show "sublist summary reply"
    by (simp only: sublist_appendI)
qed

theorem generate_ai_reply_default_witness:
  "generate_ai_reply (env_world test_environ) test_config
     (JObj [(''fields'', JObj [(''summary'', JStr ''Test ticket'')])]) idle_state
   = (Inr ''Thanks for reaching out! We received **Test ticket**. Our team will review this shortly and respond with next steps.'', idle_state)
   \<and> sublist ''Test ticket'' ''Thanks for reaching out! We received **Test ticket**. Our team will review this shortly and respond with next steps.''"
  using generate_ai_reply_default[of test_config
      "JObj [(''fields'', JObj [(''summary'', JStr ''Test ticket'')])]"
      "[(''fields'', JObj [(''summary'', JStr ''Test ticket'')])]"
      "[(''summary'', JStr ''Test ticket'')]" "''Test ticket''"
      "env_world test_environ" idle_state]
  by (simp add: test_config_def)
section \<open>Issues without a key\<close>

lemma process_issue_skip:
  assumes "dict_get issue ''key'' JNull = Inr k" "\<not> py_truthy k"
  shows "process_issue w cfg acct issue s = (Inr False, s)"
  using assms by (simp add: process_issue_def bindE_def liftE_def returnE_def)

lemma process_from_append:
  "process_from w cfg acct n (xs @ ys) s =
     (case process_from w cfg acct n xs s of
        (Inl e, s') \<Rightarrow> (Inl e, s')
      | (Inr m, s') \<Rightarrow> process_from w cfg acct m ys s')"
  by (induction xs arbitrary: n s) (auto split: prod.splits sum.splits)

lemma process_from_skip:
  assumes "process_issue w cfg acct issue = (\<lambda>s. (Inr False, s))"
  shows "process_from w cfg acct n (xs @ issue # ys) s = process_from w cfg acct n (xs @ ys) s"
  by (simp add: process_from_append assms split: prod.splits sum.splits)

text \<open>
  Claim C10. An issue whose \<^verbatim>\<open>key\<close> field is missing or empty is skipped by the
  processing loop: processing it alone changes nothing (no reply, no request) and counts
  nothing, and a batch that contains it behaves exactly as the batch without it: the same
  requests, the same result and the same processed count.
\<close>

theorem process_issues_skips_keyless:
  assumes "issue = JObj kvs"
    and "map_of kvs ''key'' = None \<or> map_of kvs ''key'' = Some (JStr [])"
  shows "process_issues w cfg [issue] acct s = (Inr 0, s)
     \<and> process_issues w cfg (before @ issue # after) acct s
         = process_issues w cfg (before @ after) acct s"
proof -
  from assms obtain k where "dict_get issue ''key'' JNull = Inr k" "\<not> py_truthy k"
    by auto
  then have skip: "process_issue w cfg acct issue = (\<lambda>s. (Inr False, s))"
    by (auto simp: process_issue_skip)
  show ?thesis
    using process_from_skip[OF skip, of 0 before after s] skip
    by (simp add: process_issues_def)
qed

theorem process_issues_skips_keyless_witness:
  "process_issues (env_world test_environ) test_config
      [JObj [(''fields'', JObj [])], JObj [(''key'', JStr [])]] ''712020:abc'' idle_state
    = (Inr 0, idle_state)"
  using process_issues_skips_keyless[of "JObj [(''fields'', JObj [])]" "[(''fields'', JObj [])]"
      "env_world test_environ" test_config "''712020:abc''" idle_state "[]"
      "[JObj [(''key'', JStr [])]]"]
    process_issues_skips_keyless[of "JObj [(''key'', JStr [])]" "[(''key'', JStr [])]"
      "env_world test_environ" test_config "''712020:abc''" idle_state "[]" "[]"]
  by simp
section \<open>Loading the watermark\<close>

text \<open>Moving a valid date back by one day gives the day with the preceding number, at
  the same time of day.\<close>

lemma days_before_december:
  "days_before_month y 12 + 31 = 365 + (if is_leap y then 1 else 0)"
  by (simp add: eval_nat_numeral days_in_month_def)

lemma days_before_year_step:
  assumes "1 < y"
  shows "days_before_year y = days_before_year (y - 1) + 365 + (if is_leap (y - 1) then 1 else 0)"
proof -
  obtain p where p: "y = Suc (Suc p)" using assms by (cases y; cases "y - 1") auto
  have le: "p div 100 \<le> p div 4" by (rule div_le_mono2) simp_all
  have m1: "Suc p mod 4 = 0" if "Suc p mod 100 = 0"
    using mod_mod_cancel[of 4 100 "Suc p"] that by simp
  have m2: "Suc p mod 100 = 0" if "Suc p mod 400 = 0"
    using mod_mod_cancel[of 100 400 "Suc p"] that by simp
  show ?thesis
    using le m1 m2
    by (auto simp: p days_before_year_def is_leap_def div_Suc) linarith+
qed
lemma minus_one_day_ordinal:
  assumes "valid_date d" "minus_one_day d = Inr d'"
  shows "toordinal d' + 1 = toordinal d \<and> time_of d' = time_of d
     \<and> dt_utcoffset d' = dt_utcoffset d"
proof -
  from assms(1) have ge: "1 \<le> dt_day d" "1 \<le> dt_month d" "1 \<le> dt_year d"
    by (simp_all add: valid_date_def)
  show ?thesis
  proof (cases "1 < dt_day d")
    case True
    with assms(2) have "d' = d\<lparr>dt_day := dt_day d - 1\<rparr>"
      by (simp add: minus_one_day_def)
    with True show ?thesis by (simp add: toordinal_def time_of_def)
  next
    case False
    with ge have day: "dt_day d = 1" by simp
    show ?thesis
    proof (cases "1 < dt_month d")
      case True
      then obtain m where m: "dt_month d = Suc (Suc m)"
        by (cases "dt_month d"; cases "dt_month d - 1") auto
      from True day assms(2) have "d' = d\<lparr>dt_month := dt_month d - 1,
          dt_day := days_in_month (dt_year d) (dt_month d - 1)\<rparr>"
        by (simp add: minus_one_day_def)
      with day m show ?thesis by (simp add: toordinal_def time_of_def)
    next
      case nm: False
      with ge have month: "dt_month d = 1" by simp
      show ?thesis
      proof (cases "1 < dt_year d")
        case True
        with day month assms(2)
        have d': "d' = d\<lparr>dt_year := dt_year d - 1, dt_month := 12, dt_day := 31\<rparr>"
          by (simp add: minus_one_day_def)
        have "toordinal d' = days_before_year (dt_year d - 1)
            + (days_before_month (dt_year d - 1) 12 + 31)"
          by (simp only: d' toordinal_def) simp
        also have "\<dots> = days_before_year (dt_year d)"
          by (simp only: days_before_december days_before_year_step[OF True])
        finally show ?thesis
          using day month by (simp add: toordinal_def d' time_of_def)
      next
        case False
        with day month assms(2) show ?thesis by (simp add: minus_one_day_def)
      qed
    qed
  qed
qed
lemma day_before_now_ok:
  assumes "1 < dt_year (clock w (ticks s))"
  shows "\<exists>d. minus_one_day (clock w (ticks s)) = Inr d"
  using assms by (simp add: minus_one_day_def)

lemma load_last_run_cases:
  "load_last_run w path s = (case read_last_run w (files s path) of
       Inr d \<Rightarrow> (Inr d, s)
     | Inl e \<Rightarrow> (minus_one_day (clock w (ticks s)), s\<lparr>ticks := ticks s + 1\<rparr>))"
  by (auto simp: load_last_run_def day_before_now_def read_last_run_def split: sum.splits)

lemma read_last_run_ok:
  "read_last_run w node = Inr d \<longleftrightarrow>
     (\<exists>kvs iso. node = File (Some (JObj kvs)) \<and> map_of kvs ''last_run'' = Some (JStr iso)
        \<and> fromisoformat w iso = Some d)"
proof (cases node)
  case (File content)
  show ?thesis
  proof (cases content)
    case None
    with File show ?thesis by (simp add: read_last_run_def)
  next
    case (Some payload)
    with File show ?thesis
      by (cases payload)
        (auto simp: read_last_run_def bindR_def split: option.splits json.splits)
  qed
qed (simp_all add: read_last_run_def)

text \<open>
  Claim C7. With the clock past year 1, loading the watermark never raises, whatever the
  path. When the file holds a JSON object whose \<^verbatim>\<open>last_run\<close> is a string that
  \<^verbatim>\<open>datetime.fromisoformat\<close> accepts, the result is that timestamp and nothing else
  changes. In every other case (no file, a file that cannot be opened, content that is not
  JSON or not an object, no \<^verbatim>\<open>last_run\<close>, a value that is not a string or not a
  timestamp) the result is the clock's reading moved back by one day.
\<close>

theorem load_last_run_spec:
  assumes "1 < dt_year (clock w (ticks s))"
  shows "(\<exists>d. fst (load_last_run w path s) = Inr d)
     \<and> (\<forall>kvs iso d. files s path = File (Some (JObj kvs))
            \<and> map_of kvs ''last_run'' = Some (JStr iso) \<and> fromisoformat w iso = Some d \<longrightarrow>
          load_last_run w path s = (Inr d, s))
     \<and> (\<not> (\<exists>kvs iso d. files s path = File (Some (JObj kvs))
            \<and> map_of kvs ''last_run'' = Some (JStr iso) \<and> fromisoformat w iso = Some d) \<longrightarrow>
          fst (load_last_run w path s) = minus_one_day (clock w (ticks s)))"
proof -
  from day_before_now_ok[OF assms] obtain y where y: "minus_one_day (clock w (ticks s)) = Inr y"
    by blast
  have a: "\<exists>d. fst (load_last_run w path s) = Inr d"
    using y by (cases "read_last_run w (files s path)") (simp_all add: load_last_run_cases)
  have b: "load_last_run w path s = (Inr d, s)"
    if "files s path = File (Some (JObj kvs))
        \<and> map_of kvs ''last_run'' = Some (JStr iso) \<and> fromisoformat w iso = Some d"
    for kvs iso d
  proof -
    from that have "read_last_run w (files s path) = Inr d"
      unfolding read_last_run_ok by blast
    then show ?thesis by (simp add: load_last_run_cases)
  qed
  have c: "fst (load_last_run w path s) = minus_one_day (clock w (ticks s))"
    if "\<not> (\<exists>kvs iso d. files s path = File (Some (JObj kvs))
            \<and> map_of kvs ''last_run'' = Some (JStr iso) \<and> fromisoformat w iso = Some d)"
  proof -
    from that have "\<not> (\<exists>d. read_last_run w (files s path) = Inr d)"
      unfolding read_last_run_ok by blast
    then obtain e where "read_last_run w (files s path) = Inl e"
      by (cases "read_last_run w (files s path)") auto
    then show ?thesis by (simp add: load_last_run_cases)
  qed
  show ?thesis
  proof (intro conjI)
    show "\<exists>d. fst (load_last_run w path s) = Inr d" by (rule a)
    show "\<forall>kvs iso d. files s path = File (Some (JObj kvs))
            \<and> map_of kvs ''last_run'' = Some (JStr iso) \<and> fromisoformat w iso = Some d \<longrightarrow>
          load_last_run w path s = (Inr d, s)"
      by (intro allI impI) (rule b)
    show "\<not> (\<exists>kvs iso d. files s path = File (Some (JObj kvs))
            \<and> map_of kvs ''last_run'' = Some (JStr iso) \<and> fromisoformat w iso = Some d) \<longrightarrow>
          fst (load_last_run w path s) = minus_one_day (clock w (ticks s))"
      by (intro impI) (rule c)
  qed
qed

theorem load_last_run_spec_witness:
  "load_last_run (test_world 201) ''last_run.json'' watermark_state
     = (Inr (naive 2024 1 1 0 0 0), watermark_state)
   \<and> fst (load_last_run (test_world 201) ''last_run.json'' idle_state)
     = Inr (naive 2023 12 31 6 0 0)"
proof -
  have clk: "clock (test_world 201) n = naive 2024 1 1 6 0 0" for n
    by (simp add: test_world_def env_world_def)
  have yr: "1 < dt_year (clock (test_world 201) (ticks st))" for st
    by (simp add: clk naive_def)
  have f1: "files watermark_state ''last_run.json''
      = File (Some (JObj [(''last_run'', JStr ''2024-01-01T00:00:00'')]))"
    by (simp add: watermark_state_def idle_state_def)
  have f2: "fromisoformat (test_world 201) ''2024-01-01T00:00:00'' = Some (naive 2024 1 1 0 0 0)"
    by (simp add: test_world_def env_world_def)
  have f3: "files idle_state ''last_run.json'' = NoFile"
    by (simp add: idle_state_def)
  from load_last_run_spec[of "test_world 201" watermark_state "''last_run.json''", OF yr] f1 f2
  have one: "load_last_run (test_world 201) ''last_run.json'' watermark_state
     = (Inr (naive 2024 1 1 0 0 0), watermark_state)"
    by simp
  from load_last_run_spec[of "test_world 201" idle_state "''last_run.json''", OF yr] f3
  have two: "fst (load_last_run (test_world 201) ''last_run.json'' idle_state)
     = Inr (naive 2023 12 31 6 0 0)"
    by (simp add: clk minus_one_day_def naive_def)
  from one two show ?thesis by simp
qed

section \<open>Applying a transition\<close>

lemma jira_list_transitions_eq:
  "jira_list_transitions w cfg key s =
     (bindR (checked (server w (trace s) (list_transitions_request w cfg key))) (\<lambda>body.
        bindR (response_json body) (\<lambda>data. dict_get data ''transitions'' (JArr []))),
      s\<lparr>trace := trace s @ [list_transitions_request w cfg key]\<rparr>)"
  by (simp add: jira_list_transitions_def bindE_def send_def liftE_def)

lemma find_transition_skip:
  assumes "\<forall>p \<in> set pre. \<exists>pk. p = JObj pk \<and> map_of pk ''name'' \<noteq> Some (JStr name)"
  shows "find_transition (pre @ rest) name = find_transition rest name"
  using assms by (induction pre) (auto split: option.splits)

lemma find_transition_none:
  assumes "\<forall>p \<in> set items. \<exists>pk. p = JObj pk \<and> map_of pk ''name'' \<noteq> Some (JStr name)"
  shows "find_transition items name = Inr None"
  using find_transition_skip[OF assms, of "[]"] by simp

lemma find_transition_first:
  assumes "\<forall>p \<in> set pre. \<exists>pk. p = JObj pk \<and> map_of pk ''name'' \<noteq> Some (JStr name)"
    and "map_of kvs ''name'' = Some (JStr name)"
  shows "find_transition (pre @ JObj kvs # post) name = Inr (Some (JObj kvs))"
  using assms(2) by (simp add: find_transition_skip[OF assms(1)])

lemma listed:
  assumes "server w (trace s) (list_transitions_request w cfg key) = Response status (Some (JObj data))"
    and "status < 400 \<or> 600 \<le> status"
    and "map_of data ''transitions'' = Some (JArr items)"
  shows "jira_list_transitions w cfg key s =
     (Inr (JArr items), s\<lparr>trace := trace s @ [list_transitions_request w cfg key]\<rparr>)"
  using assms by (auto simp: jira_list_transitions_eq checked_def response_json_def bindR_def)

lemma transition_found:
  assumes "jira_list_transitions w cfg key s = (Inr (JArr items), s1)"
    and "find_transition items name = Inr (Some (JObj kvs))"
    and "map_of kvs ''name'' = Some (JStr name)"
    and "map_of kvs ''id'' = Some tid"
  shows "jira_transition_issue w cfg key name s =
     (bindR (checked (server w (trace s1) (transition_request w cfg key tid))) (\<lambda>_. Inr ()),
      s1\<lparr>trace := trace s1 @ [transition_request w cfg key tid]\<rparr>)"
  using assms
  by (auto simp: jira_transition_issue_def bindE_def liftE_def bindR_def send_def)

lemma transition_missing:
  assumes "jira_list_transitions w cfg key s = (Inr (JArr items), s1)"
    and "find_transition items name = Inr None"
  shows "jira_transition_issue w cfg key name s =
     (Inl (transition_not_found w name key), s1)"
  using assms
  by (simp add: jira_transition_issue_def bindE_def liftE_def bindR_def raiseE_def)

text \<open>
  Claim C5. Let the listing of a ticket's transitions succeed with a list of items. If
  the first item whose name is exactly the name asked for (string equality, so case
  matters) has an id, then after the listing request one POST goes to the ticket's
  \<^verbatim>\<open>/transitions\<close> endpoint with body \<^verbatim>\<open>{"transition": {"id": <id>}}\<close>. If no item
  has that name, the call fails with the transition-not-found error and the listing GET is
  the only request sent: there is no POST.
\<close>

theorem jira_transition_issue_spec:
  assumes "server w (trace s) (list_transitions_request w cfg key)
             = Response status (Some (JObj data))"
    and "status < 400 \<or> 600 \<le> status"
    and "map_of data ''transitions'' = Some (JArr items)"
  shows "(\<forall>pre kvs post tid.
            items = pre @ JObj kvs # post
            \<and> (\<forall>p \<in> set pre. \<exists>pk. p = JObj pk \<and> map_of pk ''name'' \<noteq> Some (JStr name))
            \<and> map_of kvs ''name'' = Some (JStr name) \<and> map_of kvs ''id'' = Some tid \<longrightarrow>
          trace (snd (jira_transition_issue w cfg key name s))
            = trace s @ [list_transitions_request w cfg key, transition_request w cfg key tid]
          \<and> req_method (transition_request w cfg key tid) = POST
          \<and> req_url (transition_request w cfg key tid)
              = jira_base_url cfg @ ''/rest/api/3/issue/'' @ py_str w key @ ''/transitions''
          \<and> req_json (transition_request w cfg key tid)
              = Some (JObj [(''transition'', JObj [(''id'', tid)])]))
     \<and> ((\<forall>p \<in> set items. \<exists>pk. p = JObj pk \<and> map_of pk ''name'' \<noteq> Some (JStr name)) \<longrightarrow>
          jira_transition_issue w cfg key name s
            = (Inl (ValueError (''Transition '' @ [CHR 0x27] @ name @ [CHR 0x27]
                                @ '' not found for '' @ py_str w key)),
               s\<lparr>trace := trace s @ [list_transitions_request w cfg key]\<rparr>)
          \<and> req_method (list_transitions_request w cfg key) = GET)"
proof (intro conjI allI impI)
  note l = listed[OF assms]
  fix pre kvs post tid
  assume a: "items = pre @ JObj kvs # post
            \<and> (\<forall>p \<in> set pre. \<exists>pk. p = JObj pk \<and> map_of pk ''name'' \<noteq> Some (JStr name))
            \<and> map_of kvs ''name'' = Some (JStr name) \<and> map_of kvs ''id'' = Some tid"
  then have f: "find_transition items name = Inr (Some (JObj kvs))"
    using find_transition_first by blast
  from a show "trace (snd (jira_transition_issue w cfg key name s))
            = trace s @ [list_transitions_request w cfg key, transition_request w cfg key tid]"
    by (simp add: transition_found[OF l f])
  show "req_method (transition_request w cfg key tid) = POST"
    "req_url (transition_request w cfg key tid)
              = jira_base_url cfg @ ''/rest/api/3/issue/'' @ py_str w key @ ''/transitions''"
    "req_json (transition_request w cfg key tid)
              = Some (JObj [(''transition'', JObj [(''id'', tid)])])"
    by (simp_all add: transition_request_def)
next
  note l = listed[OF assms]
  assume "\<forall>p \<in> set items. \<exists>pk. p = JObj pk \<and> map_of pk ''name'' \<noteq> Some (JStr name)"
  then have "find_transition items name = Inr None"
    by (rule find_transition_none)
  then show "jira_transition_issue w cfg key name s
            = (Inl (ValueError (''Transition '' @ [CHR 0x27] @ name @ [CHR 0x27]
                                @ '' not found for '' @ py_str w key)),
               s\<lparr>trace := trace s @ [list_transitions_request w cfg key]\<rparr>)"
    by (simp add: transition_missing[OF l] transition_not_found_def)
  show "req_method (list_transitions_request w cfg key) = GET"
    by (simp add: list_transitions_request_def)
qed

theorem jira_transition_issue_spec_witness:
  "trace (snd (jira_transition_issue (test_world 201) test_config (JStr ''TS-1'') ''Iprogress''
                 idle_state))
     = [list_transitions_request (test_world 201) test_config (JStr ''TS-1''),
        transition_request (test_world 201) test_config (JStr ''TS-1'') (JStr ''55'')]
   \<and> req_json (transition_request (test_world 201) test_config (JStr ''TS-1'') (JStr ''55''))
     = Some (JObj [(''transition'', JObj [(''id'', JStr ''55'')])])
   \<and> jira_transition_issue (test_world 201) test_config (JStr ''TS-1'') ''iprogress'' idle_state
     = (Inl (ValueError (''Transition '' @ [CHR 0x27] @ ''iprogress'' @ [CHR 0x27]
                         @ '' not found for TS-1'')),
        idle_state\<lparr>trace :=
          [list_transitions_request (test_world 201) test_config (JStr ''TS-1'')]\<rparr>)"
proof -
  let ?w = "test_world 201"
  let ?k = "JStr ''TS-1''"
  let ?items = "[JObj [(''id'', JStr ''11''), (''name'', JStr ''To-Do'')],
              JObj [(''id'', JStr ''55''), (''name'', JStr ''Iprogress'')],
              JObj [(''id'', JStr ''77''), (''name'', JStr ''Wating for clinet'')]]"
  have r: "server ?w (trace idle_state) (list_transitions_request ?w test_config ?k)
      = Response 200 (Some (JObj [(''transitions'', JArr ?items)]))"
    by code_simp
  have st: "(200::nat) < 400 \<or> 600 \<le> (200::nat)" by simp
  have m: "map_of [(''transitions'', JArr ?items)] ''transitions'' = Some (JArr ?items)"
    by simp
  note spec = jira_transition_issue_spec[OF r st m]
  have found: "trace (snd (jira_transition_issue ?w test_config ?k ''Iprogress'' idle_state))
     = trace idle_state @ [list_transitions_request ?w test_config ?k,
        transition_request ?w test_config ?k (JStr ''55'')]"
    using spec[of "''Iprogress''", THEN conjunct1, rule_format,
        of "[JObj [(''id'', JStr ''11''), (''name'', JStr ''To-Do'')]]"
           "[(''id'', JStr ''55''), (''name'', JStr ''Iprogress'')]"
           "[JObj [(''id'', JStr ''77''), (''name'', JStr ''Wating for clinet'')]]"
           "JStr ''55''"]
    by simp
  have missing: "jira_transition_issue ?w test_config ?k ''iprogress'' idle_state
     = (Inl (ValueError (''Transition '' @ [CHR 0x27] @ ''iprogress'' @ [CHR 0x27]
                         @ '' not found for TS-1'')),
        idle_state\<lparr>trace := trace idle_state @ [list_transitions_request ?w test_config ?k]\<rparr>)"
  proof -
    have none: "\<forall>p \<in> set ?items. \<exists>pk. p = JObj pk
        \<and> map_of pk ''name'' \<noteq> Some (JStr ''iprogress'')"
      by simp
    from spec[of "''iprogress''", THEN conjunct2, THEN mp, OF none, THEN conjunct1]
    show ?thesis by (simp add: py_str_def)
  qed
  from found missing show ?thesis
    by (simp add: idle_state_def py_str_def transition_request_def)
qed

section \<open>The steps for one ticket\<close>










section \<open>Persisting the watermark\<close>

lemma files_now_local: "files (snd (now_local w cfg s)) = files s"
  by (simp add: now_local_def split: option.splits sum.splits)

lemma files_load_last_run: "files (snd (load_last_run w path s)) = files s"
  by (simp add: load_last_run_def day_before_now_def split: sum.splits)

lemma files_search: "files (snd (jira_search_issues w cfg last_run s)) = files s"
  by (simp add: jira_search_issues_def bindE_def send_def liftE_def)

lemma files_generate: "files (snd (generate_ai_reply w cfg issue s)) = files s"
  by (auto simp: generate_ai_reply_def bindE_def send_def liftE_def
      split: option.splits sum.splits prod.splits)

lemma files_comment: "files (snd (jira_add_comment w cfg key body s)) = files s"
  by (simp add: jira_add_comment_def bindE_def send_def liftE_def)

lemma files_assign: "files (snd (jira_assign_issue w cfg key acct s)) = files s"
  by (simp add: jira_assign_issue_def bindE_def send_def liftE_def)

lemma files_transition: "files (snd (jira_transition_issue w cfg key name s)) = files s"
  by (auto simp: jira_transition_issue_def jira_list_transitions_def bindE_def send_def
      liftE_def raiseE_def split: option.splits sum.splits prod.splits)

lemma files_bindE:
  assumes "\<And>s. files (snd (m s)) = files s" "\<And>x s. files (snd (f x s)) = files s"
  shows "files (snd (bindE m f s)) = files s"
proof (cases "m s")
  case (Pair r s1)
  with assms(1)[of s] have "files s1 = files s" by simp
  with Pair assms(2) show ?thesis
    by (cases r) (simp_all add: bindE_def)
qed

lemma files_process_issue: "files (snd (process_issue w cfg acct issue s)) = files s"
  unfolding process_issue_def thenE_def
  by (intro files_bindE)
    (simp_all add: liftE_def returnE_def files_generate files_comment files_assign
      files_transition files_bindE)

lemma files_process_from: "files (snd (process_from w cfg acct n issues s)) = files s"
proof (induction issues arbitrary: n s)
  case Nil
  then show ?case by simp
next
  case (Cons issue issues)
  show ?case
  proof (cases "process_issue w cfg acct issue s")
    case (Pair r s1)
    with files_process_issue[of w cfg acct issue s] have "files s1 = files s" by simp
    with Pair Cons show ?thesis by (cases r) simp_all
  qed
qed

lemma files_process_issues: "files (snd (process_issues w cfg issues acct s)) = files s"
  by (simp add: process_issues_def files_process_from)


lemma main_loaded: "load_config w = Inr cfg \<Longrightarrow> main w = run w cfg"
  by (simp add: main_def)

lemma run_processing:
  assumes "now_local w cfg s = (Inr now, s1)"
    and "within_reply_window cfg now"
    and "load_last_run w (last_run_path cfg) s1 = (Inr last_run, s2)"
    and "jira_search_issues w cfg last_run s2 = (Inr issues, s3)"
    and "py_truthy issues" "py_iter issues = Inr items"
  shows "run w cfg s =
     (case process_issues w cfg items (jira_assignee_account_id cfg) s3 of
        (Inl e, s4) \<Rightarrow> (Inl e, s4)
      | (Inr processed, s4) \<Rightarrow>
          (case save_last_run (last_run_path cfg) now s4 of
             (Inl e, s5) \<Rightarrow> (Inl e, s5)
           | (Inr u, s5) \<Rightarrow>
               (Inr 0, s5\<lparr>stdout := stdout s5
                   @ [''Processed '' @ pad_digits 1 processed @ '' issues.'']\<rparr>)))"
  using assms
  by (simp add: run_def bindE_def thenE_def liftE_def returnE_def print_def
      split: prod.splits sum.splits)

text \<open>
  Claim C1, as the code has it. For a run that enters processing (the configuration loads,
  the time is inside the window, the watermark loads and the search returns candidates):
  when an error aborts the batch, the error leaves \<^verbatim>\<open>main\<close> and no file has changed,
  so the watermark is as it was; when the batch completes and the watermark path can be
  written, \<^verbatim>\<open>main\<close> returns 0 and the watermark file holds the time the run read at its
  start.
\<close>

theorem main_watermark:
  assumes "load_config w = Inr cfg"
    and "now_local w cfg s = (Inr now, s1)"
    and "within_reply_window cfg now"
    and "load_last_run w (last_run_path cfg) s1 = (Inr last_run, s2)"
    and "jira_search_issues w cfg last_run s2 = (Inr issues, s3)"
    and "py_truthy issues" "py_iter issues = Inr items"
  shows "(\<forall>e s4. process_issues w cfg items (jira_assignee_account_id cfg) s3 = (Inl e, s4) \<longrightarrow>
            main w s = (Inl e, s4) \<and> files s4 = files s)
     \<and> (\<forall>n s4. process_issues w cfg items (jira_assignee_account_id cfg) s3 = (Inr n, s4)
            \<and> files s (last_run_path cfg) \<noteq> NoAccess \<longrightarrow>
            fst (main w s) = Inr 0
          \<and> files (snd (main w s)) = (files s)(last_run_path cfg :=
               File (Some (JObj [(''last_run'', JStr (isoformat now))]))))"
proof -
  have f1: "files s1 = files s" using files_now_local[of w cfg s] assms(2) by simp
  have f2: "files s2 = files s1"
    using files_load_last_run[of w "last_run_path cfg" s1] assms(4) by simp
  have f3: "files s3 = files s2" using files_search[of w cfg last_run s2] assms(5) by simp
  have f4: "files s4 = files s"
    if "process_issues w cfg items (jira_assignee_account_id cfg) s3 = (r, s4)" for r s4
    using files_process_issues[of w cfg items "jira_assignee_account_id cfg" s3] that f1 f2 f3
    by simp
  note r = run_processing[OF assms(2-)]
  show ?thesis
  proof (intro conjI allI impI)
    fix e s4
    assume p: "process_issues w cfg items (jira_assignee_account_id cfg) s3 = (Inl e, s4)"
    then show "main w s = (Inl e, s4)"
      by (simp add: main_loaded[OF assms(1)] r)
    show "files s4 = files s"
      by (rule f4[OF p])
  next
    fix n s4
    assume p: "process_issues w cfg items (jira_assignee_account_id cfg) s3 = (Inr n, s4)
            \<and> files s (last_run_path cfg) \<noteq> NoAccess"
    then have p1: "process_issues w cfg items (jira_assignee_account_id cfg) s3 = (Inr n, s4)"
      by simp
    from p f4[OF p1] show "fst (main w s) = Inr 0"
      by (simp add: main_loaded[OF assms(1)] r save_last_run_def)
    from p f4[OF p1] show "files (snd (main w s)) = (files s)(last_run_path cfg :=
               File (Some (JObj [(''last_run'', JStr (isoformat now))])))"
      by (simp add: main_loaded[OF assms(1)] r save_last_run_def)
  qed
qed

theorem main_watermark_witness:
  "fst (main (test_world 201) watermark_state) = Inr 0
   \<and> files (snd (main (test_world 201) watermark_state)) ''last_run.json''
       = File (Some (JObj [(''last_run'', JStr ''2024-01-01T06:00:00'')]))"
proof -
  let ?w = "test_world 201"
  let ?now = "naive 2024 1 1 6 0 0"
  let ?last = "naive 2024 1 1 0 0 0"
  let ?s1 = "watermark_state\<lparr>ticks := 1\<rparr>"
  let ?s3 = "?s1\<lparr>trace := [search_request test_config ?last]\<rparr>"
  let ?issues = "JArr [JObj [(''key'', JStr ''TS-1'')]]"
  have cfg: "load_config ?w = Inr test_config"
    by code_simp
  have path: "last_run_path test_config = ''last_run.json''"
    and acct: "jira_assignee_account_id test_config = ''712020:abc''"
    by (simp_all add: test_config_def)
  have now: "now_local ?w test_config watermark_state = (Inr ?now, ?s1)"
    by (simp add: now_local_def test_config_def test_world_def env_world_def
        watermark_state_def idle_state_def)
  have win: "within_reply_window test_config ?now"
    by code_simp
  have last: "load_last_run ?w (last_run_path test_config) ?s1 = (Inr ?last, ?s1)"
    by (simp add: path load_last_run_def read_last_run_def bindR_def test_world_def
        env_world_def watermark_state_def idle_state_def)
  have answer: "server ?w [] (search_request test_config ?last) = Response 200
      (Some (JObj [(''issues'', ?issues)]))"
    by code_simp
  have search: "jira_search_issues ?w test_config ?last ?s1 = (Inr ?issues, ?s3)"
    using answer
    by (simp add: jira_search_issues_def bindE_def send_def liftE_def bindR_def checked_def
        response_json_def watermark_state_def idle_state_def)
  have cand: "py_truthy ?issues" "py_iter ?issues = Inr [JObj [(''key'', JStr ''TS-1'')]]"
    by simp_all
  have "fst (process_issues ?w test_config [JObj [(''key'', JStr ''TS-1'')]] ''712020:abc''
          (watermark_state\<lparr>ticks := 1, trace := [search_request test_config ?last]\<rparr>)) = Inr 1"
    by code_simp
  then obtain s4 where batch: "process_issues ?w test_config [JObj [(''key'', JStr ''TS-1'')]]
      (jira_assignee_account_id test_config) ?s3 = (Inr 1, s4)"
    unfolding acct
    by (cases "process_issues ?w test_config [JObj [(''key'', JStr ''TS-1'')]] ''712020:abc'' ?s3")
      simp
  have writable: "files watermark_state (last_run_path test_config) \<noteq> NoAccess"
    by (simp add: path watermark_state_def idle_state_def)
  have iso: "isoformat ?now = ''2024-01-01T06:00:00''"
    by code_simp
  from main_watermark[OF cfg now win last search cand, THEN conjunct2, rule_format,
      OF conjI, OF batch writable]
  show ?thesis
    by (simp only: path iso fun_upd_same)
qed

text \<open>The claim as written fails: the comment request is answered with status 500, the
  error leaves \<^verbatim>\<open>main\<close>, and the watermark file still holds the previous run's time, not
  this run's 06:00.\<close>

theorem main_watermark_counterexample:
  "fst (main (test_world 500) watermark_state) = Inl (HTTPError 500)
   \<and> files (snd (main (test_world 500) watermark_state)) ''last_run.json''
       = File (Some (JObj [(''last_run'', JStr ''2024-01-01T00:00:00'')]))
   \<and> stdout (snd (main (test_world 500) watermark_state)) = []"
proof -
  have "(case main (test_world 500) watermark_state of
           (r, s') \<Rightarrow> (r, files s' ''last_run.json'', stdout s'))
        = (Inl (HTTPError 500),
           File (Some (JObj [(''last_run'', JStr ''2024-01-01T00:00:00'')])), [])"
    by code_simp
  then show ?thesis
    by (simp split: prod.splits)
qed

end
